theory Spec2Isabelle
  imports Complex_Main "HOL-Library.Sublist" "HOL-Library.List_Lexorder" "HOL-Library.Char_ord"
    "HOL-Library.Product_Lexorder"
begin

section \<open>Regular expressions of the pattern catalog\<close>

text \<open>
  The catalog of \<^verbatim>\<open>src/analyzer/pattern-catalog.ts\<close> holds JavaScript regular-expression
  literals. A literal is kept as its syntax tree together with its flag string. The
  constructors follow the ECMAScript grammar for the constructs the catalog uses: literal
  characters, the dot, character-class escapes, bracketed classes (plain and negated), the
  word-boundary assertion, sequences, alternatives of a non-capturing group and quantified
  atoms. The catalog uses no anchors, no capturing groups, no back references and no lazy
  quantifiers.
\<close>

datatype cls_atom =
    Ch char            \<comment> \<open>a single character of a class\<close>
  | Rng char char      \<comment> \<open>a range \<^verbatim>\<open>a-z\<close> of a class\<close>
  | Space              \<comment> \<open>\<^verbatim>\<open>\s\<close>\<close>
  | NonSpace           \<comment> \<open>\<^verbatim>\<open>\S\<close>\<close>
  | WordCh             \<comment> \<open>\<^verbatim>\<open>\w\<close>\<close>
  | Digit              \<comment> \<open>\<^verbatim>\<open>\d\<close>\<close>

datatype quant =
    Star               \<comment> \<open>\<^verbatim>\<open>*\<close>\<close>
  | Plus               \<comment> \<open>\<^verbatim>\<open>+\<close>\<close>
  | Opt                \<comment> \<open>\<^verbatim>\<open>?\<close>\<close>
  | Exact nat          \<comment> \<open>\<^verbatim>\<open>{n}\<close>\<close>
  | Count nat nat      \<comment> \<open>\<^verbatim>\<open>{n,m}\<close>\<close>

datatype regex =
    Lit string         \<comment> \<open>a run of literal characters (escaped where the syntax needs it)\<close>
  | Dot                \<comment> \<open>\<^verbatim>\<open>.\<close>\<close>
  | Esc cls_atom       \<comment> \<open>a class escape outside brackets\<close>
  | Cls "cls_atom list"    \<comment> \<open>\<^verbatim>\<open>[...]\<close>\<close>
  | NCls "cls_atom list"   \<comment> \<open>\<^verbatim>\<open>[^...]\<close>\<close>
  | WordB              \<comment> \<open>\<^verbatim>\<open>\b\<close>\<close>
  | Seq "regex list"
  | Alt "regex list"
  | Rep regex quant

abbreviation ws :: regex where "ws \<equiv> Rep (Esc Space) Star"
abbreviation ws1 :: regex where "ws1 \<equiv> Rep (Esc Space) Plus"
abbreviation quo :: regex where "quo \<equiv> Cls [Ch (CHR 0x27), Ch (CHR 0x22), Ch (CHR 0x60)]"
abbreviation anyCh :: regex where "anyCh \<equiv> Cls [Space, NonSpace]"

record RegExp =
  source :: regex
  flags :: string

section \<open>The pattern catalog\<close>

record PatternDefinition =
  id_str :: string
  domain :: string
  description :: string
  filePatterns :: "string list"
  codePatterns :: "RegExp list"
  confidenceBase :: real

text \<open>
  \<^verbatim>\<open>getPatternCatalog()\<close> takes no argument and returns an array literal; each regular
  expression is given with its source text above its syntax tree. \<^verbatim>\<open>id\<close> is \<open>id_str\<close>
  here (\<open>id\<close> is the identity function of HOL). \<^verbatim>\<open>confidenceBase\<close> is a decimal
  literal of the source, read as the real number it denotes.
\<close>

definition getPatternCatalog :: "unit \<Rightarrow> PatternDefinition list" where
  \<open>getPatternCatalog u = [
    \<lparr> id_str = ''ux-manual-loading-states'',
      domain = ''empty-loading-error-states'',
      description = ''Hand-rolled loading state management without skeleton/spinner library'',
      filePatterns = [''**/*.tsx'', ''**/*.jsx''],
      codePatterns = [
        \<comment> \<open>/isLoading\s*\?\s*.*(?:Loading|Spinner|\.\.\.)/i\<close>
        \<lparr> source = (Seq [Lit ''isLoading'', ws, Lit ''?'', ws, Rep Dot Star,
            Alt [Lit ''Loading'', Lit ''Spinner'', Lit ''...'']]), flags = ''i'' \<rparr>,
        \<comment> \<open>/useState\s*<\s*boolean\s*>\s*\(\s*(?:true|false)\s*\).*loading/i\<close>
        \<lparr> source = (Seq [Lit ''useState'', ws, Lit ''<'', ws, Lit ''boolean'', ws,
            Lit ''>'', ws, Lit ''('', ws, Alt [Lit ''true'', Lit ''false''], ws, Lit '')'',
            Rep Dot Star, Lit ''loading'']), flags = ''i'' \<rparr>
      ],
      confidenceBase = 0.55 \<rparr>,
    \<lparr> id_str = ''a11y-manual-click-handler-div'',
      domain = ''a11y-accessibility'',
      description = ''Clickable div/span without keyboard accessibility'',
      filePatterns = [''**/*.tsx'', ''**/*.jsx''],
      codePatterns = [
        \<comment> \<open>/<div\s[^>]*onClick\s*=\s*\{/\<close>
        \<lparr> source = (Seq [Lit ''<div'', Esc Space, Rep (NCls [Ch (CHR ''>'')]) Star,
            Lit ''onClick'', ws, Lit ''='', ws, Lit ''{'']), flags = '''' \<rparr>,
        \<comment> \<open>/<span\s[^>]*onClick\s*=\s*\{/\<close>
        \<lparr> source = (Seq [Lit ''<span'', Esc Space, Rep (NCls [Ch (CHR ''>'')]) Star,
            Lit ''onClick'', ws, Lit ''='', ws, Lit ''{'']), flags = '''' \<rparr>
      ],
      confidenceBase = 0.6 \<rparr>,
    \<lparr> id_str = ''a11y-manual-focus-management'',
      domain = ''a11y-accessibility'',
      description = ''Hand-rolled focus management and keyboard trap'',
      filePatterns = [''**/*.tsx'', ''**/*.jsx'', ''**/*.ts'', ''**/*.js''],
      codePatterns = [
        \<comment> \<open>/\.focus\s*\(\s*\)[\s\S]{0,200}(?:tabIndex|keyCode|keyDown)/i\<close>
        \<lparr> source = (Seq [Lit ''.focus'', ws, Lit ''('', ws, Lit '')'',
            Rep anyCh (Count 0 200), Alt [Lit ''tabIndex'', Lit ''keyCode'',
            Lit ''keyDown'']]), flags = ''i'' \<rparr>,
        \<comment> \<open>/addEventListener\s*\(\s*['"`]keydown['"`][\s\S]{0,200}(?:Tab|Escape|27|9)\b/\<close>
        \<lparr> source = (Seq [Lit ''addEventListener'', ws, Lit ''('', ws, quo,
            Lit ''keydown'', quo, Rep anyCh (Count 0 200), Alt [Lit ''Tab'', Lit ''Escape'',
            Lit ''27'', Lit ''9''], WordB]), flags = '''' \<rparr>,
        \<comment> \<open>/document\s*\.\s*activeElement/\<close>
        \<lparr> source = (Seq [Lit ''document'', ws, Lit ''.'', ws, Lit ''activeElement'']),
            flags = '''' \<rparr>
      ],
      confidenceBase = 0.55 \<rparr>,
    \<lparr> id_str = ''forms-manual-state-tracking'',
      domain = ''forms-ux'',
      description = ''Multiple useState hooks for individual form fields'',
      filePatterns = [''**/*.tsx'', ''**/*.jsx''],
      codePatterns = [
        \<comment> \<open>/const\s*\[\s*\w+,\s*set\w+\s*\]\s*=\s*useState\s*\(\s*['"`]{2}\s*\)[\s\S]{0,200}onChange/\<close>
        \<lparr> source = (Seq [Lit ''const'', ws, Lit ''['', ws, Rep (Esc WordCh) Plus,
            Lit '','', ws, Lit ''set'', Rep (Esc WordCh) Plus, ws, Lit '']'', ws, Lit ''='',
            ws, Lit ''useState'', ws, Lit ''('', ws, Rep quo (Exact 2), ws, Lit '')'',
            Rep anyCh (Count 0 200), Lit ''onChange'']), flags = '''' \<rparr>,
        \<comment> \<open>/e\s*\.\s*target\s*\.\s*value[\s\S]{0,50}set\w+\s*\(\s*e\s*\.\s*target\s*\.\s*value\s*\)/\<close>
        \<lparr> source = (Seq [Lit ''e'', ws, Lit ''.'', ws, Lit ''target'', ws, Lit ''.'',
            ws, Lit ''value'', Rep anyCh (Count 0 50), Lit ''set'', Rep (Esc WordCh) Plus, ws,
            Lit ''('', ws, Lit ''e'', ws, Lit ''.'', ws, Lit ''target'', ws, Lit ''.'', ws,
            Lit ''value'', ws, Lit '')'']), flags = '''' \<rparr>
      ],
      confidenceBase = 0.65 \<rparr>,
    \<lparr> id_str = ''forms-manual-submit-handler'',
      domain = ''forms-ux'',
      description = ''Hand-rolled form submission with manual preventDefault and state collection'',
      filePatterns = [''**/*.tsx'', ''**/*.jsx''],
      codePatterns = [
        \<comment> \<open>/handleSubmit[\s\S]{0,100}preventDefault\s*\(\s*\)[\s\S]{0,200}fetch\s*\(/\<close>
        \<lparr> source = (Seq [Lit ''handleSubmit'', Rep anyCh (Count 0 100),
            Lit ''preventDefault'', ws, Lit ''('', ws, Lit '')'', Rep anyCh (Count 0 200),
            Lit ''fetch'', ws, Lit ''('']), flags = '''' \<rparr>,
        \<comment> \<open>/onSubmit[\s\S]{0,100}e\s*\.\s*preventDefault[\s\S]{0,200}(?:setLoading|setError)/\<close>
        \<lparr> source = (Seq [Lit ''onSubmit'', Rep anyCh (Count 0 100), Lit ''e'', ws,
            Lit ''.'', ws, Lit ''preventDefault'', Rep anyCh (Count 0 200),
            Alt [Lit ''setLoading'', Lit ''setError'']]), flags = '''' \<rparr>
      ],
      confidenceBase = 0.6 \<rparr>,
    \<lparr> id_str = ''validation-manual-form-errors'',
      domain = ''validation-feedback'',
      description = ''Hand-rolled form validation with manual error state tracking'',
      filePatterns = [''**/*.tsx'', ''**/*.jsx'', ''**/*.ts'', ''**/*.js''],
      codePatterns = [
        \<comment> \<open>/setError\s*\(\s*['"`]/\<close>
        \<lparr> source = (Seq [Lit ''setError'', ws, Lit ''('', ws, quo]),
            flags = '''' \<rparr>,
        \<comment> \<open>/errors\s*\[\s*['"`]\w+['"`]\s*\]/\<close>
        \<lparr> source = (Seq [Lit ''errors'', ws, Lit ''['', ws, quo, Rep (Esc WordCh) Plus,
            quo, ws, Lit '']'']), flags = '''' \<rparr>,
        \<comment> \<open>/validate\w*\s*=\s*\(\s*\)\s*=>/\<close>
        \<lparr> source = (Seq [Lit ''validate'', Rep (Esc WordCh) Star, ws, Lit ''='', ws,
            Lit ''('', ws, Lit '')'', ws, Lit ''=>'']), flags = '''' \<rparr>
      ],
      confidenceBase = 0.7 \<rparr>,
    \<lparr> id_str = ''notifications-manual-alert'',
      domain = ''notifications-inapp'',
      description = ''Using window.alert/confirm/prompt instead of a toast/notification library'',
      filePatterns = [''**/*.ts'', ''**/*.tsx'', ''**/*.js'', ''**/*.jsx''],
      codePatterns = [
        \<comment> \<open>/window\s*\.\s*alert\s*\(/\<close>
        \<lparr> source = (Seq [Lit ''window'', ws, Lit ''.'', ws, Lit ''alert'', ws,
            Lit ''('']), flags = '''' \<rparr>,
        \<comment> \<open>/window\s*\.\s*confirm\s*\(/\<close>
        \<lparr> source = (Seq [Lit ''window'', ws, Lit ''.'', ws, Lit ''confirm'', ws,
            Lit ''('']), flags = '''' \<rparr>,
        \<comment> \<open>/window\s*\.\s*prompt\s*\(/\<close>
        \<lparr> source = (Seq [Lit ''window'', ws, Lit ''.'', ws, Lit ''prompt'', ws,
            Lit ''('']), flags = '''' \<rparr>
      ],
      confidenceBase = 0.75 \<rparr>,
    \<lparr> id_str = ''design-hardcoded-colors'',
      domain = ''design-system'',
      description = ''Hardcoded hex/rgb colors in JSX/TSX instead of CSS variables or design tokens'',
      filePatterns = [''**/*.tsx'', ''**/*.jsx''],
      codePatterns = [
        \<comment> \<open>/(?:color|background|border|fill|stroke)\s*[:=]\s*['"`]#[0-9a-fA-F]{3,8}['"`]/\<close>
        \<lparr> source = (Seq [Alt [Lit ''color'', Lit ''background'', Lit ''border'',
            Lit ''fill'', Lit ''stroke''], ws, Cls [Ch (CHR '':''), Ch (CHR ''='')], ws, quo,
            Lit ''#'', Rep (Cls [Rng (CHR ''0'') (CHR ''9''), Rng (CHR ''a'') (CHR ''f''),
            Rng (CHR ''A'') (CHR ''F'')]) (Count 3 8), quo]), flags = '''' \<rparr>,
        \<comment> \<open>/(?:color|background|border)\s*[:=]\s*['"`]rgb\(/\<close>
        \<lparr> source = (Seq [Alt [Lit ''color'', Lit ''background'', Lit ''border''], ws,
            Cls [Ch (CHR '':''), Ch (CHR ''='')], ws, quo, Lit ''rgb('']), flags = '''' \<rparr>,
        \<comment> \<open>/className\s*=.*(?:bg|text|border)-\[#[0-9a-fA-F]{3,8}\]/\<close>
        \<lparr> source = (Seq [Lit ''className'', ws, Lit ''='', Rep Dot Star,
            Alt [Lit ''bg'', Lit ''text'', Lit ''border''], Lit ''-[#'',
            Rep (Cls [Rng (CHR ''0'') (CHR ''9''), Rng (CHR ''a'') (CHR ''f''),
            Rng (CHR ''A'') (CHR ''F'')]) (Count 3 8), Lit '']'']), flags = '''' \<rparr>
      ],
      confidenceBase = 0.6 \<rparr>,
    \<lparr> id_str = ''design-inline-styles'',
      domain = ''design-system'',
      description = ''Inline style objects in JSX instead of utility classes or design tokens'',
      filePatterns = [''**/*.tsx'', ''**/*.jsx''],
      codePatterns = [
        \<comment> \<open>/style\s*=\s*\{\s*\{/\<close>
        \<lparr> source = (Seq [Lit ''style'', ws, Lit ''='', ws, Lit ''{'', ws, Lit ''{'']),
            flags = '''' \<rparr>,
        \<comment> \<open>/style\s*=\s*\{[^}]*(?:padding|margin|fontSize|color|width|height)\s*:/\<close>
        \<lparr> source = (Seq [Lit ''style'', ws, Lit ''='', ws, Lit ''{'',
            Rep (NCls [Ch (CHR ''}'')]) Star, Alt [Lit ''padding'', Lit ''margin'',
            Lit ''fontSize'', Lit ''color'', Lit ''width'', Lit ''height''], ws, Lit '':'']),
            flags = '''' \<rparr>
      ],
      confidenceBase = 0.55 \<rparr>,
    \<lparr> id_str = ''design-no-cn-utility'',
      domain = ''design-system'',
      description = ''String concatenation for className instead of cn()/clsx/cva utility'',
      filePatterns = [''**/*.tsx'', ''**/*.jsx''],
      codePatterns = [
        \<comment> \<open>/className\s*=\s*\{[^}]*`[^`]*\$\{/\<close>
        \<lparr> source = (Seq [Lit ''className'', ws, Lit ''='', ws, Lit ''{'',
            Rep (NCls [Ch (CHR ''}'')]) Star, Lit ''`'', Rep (NCls [Ch (CHR 0x60)]) Star,
            Lit ''${'']), flags = '''' \<rparr>,
        \<comment> \<open>/className\s*=\s*\{[^}]*\+\s*['"`]/\<close>
        \<lparr> source = (Seq [Lit ''className'', ws, Lit ''='', ws, Lit ''{'',
            Rep (NCls [Ch (CHR ''}'')]) Star, Lit ''+'', ws, quo]), flags = '''' \<rparr>,
        \<comment> \<open>/className\s*=\s*\{.*\?\s*['"`][^'"]*['"`]\s*:\s*['"`]/\<close>
        \<lparr> source = (Seq [Lit ''className'', ws, Lit ''='', ws, Lit ''{'', Rep Dot Star,
            Lit ''?'', ws, quo, Rep (NCls [Ch (CHR 0x27), Ch (CHR 0x22)]) Star, quo, ws,
            Lit '':'', ws, quo]), flags = '''' \<rparr>
      ],
      confidenceBase = 0.6 \<rparr>,
    \<lparr> id_str = ''seo-manual-meta-tags'',
      domain = ''seo'',
      description = ''Hand-rolled <meta> tag injection via DOM manipulation'',
      filePatterns = [''**/*.ts'', ''**/*.tsx'', ''**/*.js'', ''**/*.jsx''],
      codePatterns = [
        \<comment> \<open>/document\s*\.\s*createElement\s*\(\s*['"`]meta['"`]\s*\)/\<close>
        \<lparr> source = (Seq [Lit ''document'', ws, Lit ''.'', ws, Lit ''createElement'', ws,
            Lit ''('', ws, quo, Lit ''meta'', quo, ws, Lit '')'']), flags = '''' \<rparr>,
        \<comment> \<open>/document\s*\.\s*head\s*\.\s*appendChild/\<close>
        \<lparr> source = (Seq [Lit ''document'', ws, Lit ''.'', ws, Lit ''head'', ws,
            Lit ''.'', ws, Lit ''appendChild'']), flags = '''' \<rparr>,
        \<comment> \<open>/document\s*\.\s*querySelector\s*\(\s*['"`]meta\[/\<close>
        \<lparr> source = (Seq [Lit ''document'', ws, Lit ''.'', ws, Lit ''querySelector'', ws,
            Lit ''('', ws, quo, Lit ''meta['']), flags = '''' \<rparr>
      ],
      confidenceBase = 0.75 \<rparr>,
    \<lparr> id_str = ''seo-manual-sitemap'',
      domain = ''seo'',
      description = ''Hand-rolled XML sitemap generation'',
      filePatterns = [''**/*.ts'', ''**/*.js'', ''**/*.xml''],
      codePatterns = [
        \<comment> \<open>/<\?xml\s+version/\<close>
        \<lparr> source = (Seq [Lit ''<?xml'', ws1, Lit ''version'']), flags = '''' \<rparr>,
        \<comment> \<open>/<urlset\s+xmlns/\<close>
        \<lparr> source = (Seq [Lit ''<urlset'', ws1, Lit ''xmlns'']), flags = '''' \<rparr>,
        \<comment> \<open>/writeFileSync\s*\(.*sitemap/i\<close>
        \<lparr> source = (Seq [Lit ''writeFileSync'', ws, Lit ''('', Rep Dot Star,
            Lit ''sitemap'']), flags = ''i'' \<rparr>
      ],
      confidenceBase = 0.8 \<rparr>,
    \<lparr> id_str = ''i18n-manual-pluralization'',
      domain = ''i18n'',
      description = ''Hand-rolled pluralization logic (if/else or ternary on count)'',
      filePatterns = [''**/*.ts'', ''**/*.tsx'', ''**/*.js'', ''**/*.jsx''],
      codePatterns = [
        \<comment> \<open>/count\s*[=!]==?\s*1\s*\?\s*['"`].*['"`]\s*:\s*['"`].*['"`]/\<close>
        \<lparr> source = (Seq [Lit ''count'', ws, Cls [Ch (CHR ''=''), Ch (CHR ''!'')],
            Lit ''='', Rep (Lit ''='') Opt, ws, Lit ''1'', ws, Lit ''?'', ws, quo,
            Rep Dot Star, quo, ws, Lit '':'', ws, quo, Rep Dot Star, quo]),
            flags = '''' \<rparr>,
        \<comment> \<open>/\.length\s*[=!]==?\s*1\s*\?\s*['"`].*['"`]\s*:\s*['"`].*['"`]/\<close>
        \<lparr> source = (Seq [Lit ''.length'', ws, Cls [Ch (CHR ''=''), Ch (CHR ''!'')],
            Lit ''='', Rep (Lit ''='') Opt, ws, Lit ''1'', ws, Lit ''?'', ws, quo,
            Rep Dot Star, quo, ws, Lit '':'', ws, quo, Rep Dot Star, quo]),
            flags = '''' \<rparr>
      ],
      confidenceBase = 0.7 \<rparr>,
    \<lparr> id_str = ''i18n-manual-locale-detection'',
      domain = ''i18n'',
      description = ''Manual navigator.language or Accept-Language header parsing'',
      filePatterns = [''**/*.ts'', ''**/*.tsx'', ''**/*.js'', ''**/*.jsx''],
      codePatterns = [
        \<comment> \<open>/navigator\s*\.\s*language/\<close>
        \<lparr> source = (Seq [Lit ''navigator'', ws, Lit ''.'', ws, Lit ''language'']),
            flags = '''' \<rparr>,
        \<comment> \<open>/accept-language/i\<close>
        \<lparr> source = (Lit ''accept-language''), flags = ''i'' \<rparr>,
        \<comment> \<open>/toLocaleDateString\s*\(/\<close>
        \<lparr> source = (Seq [Lit ''toLocaleDateString'', ws, Lit ''('']),
            flags = '''' \<rparr>
      ],
      confidenceBase = 0.65 \<rparr>,
    \<lparr> id_str = ''content-manual-markdown-parsing'',
      domain = ''content-marketing'',
      description = ''Hand-rolled markdown parsing with regex or string manipulation'',
      filePatterns = [''**/*.ts'', ''**/*.js'', ''**/*.tsx'', ''**/*.jsx''],
      codePatterns = [
        \<comment> \<open>/\.replace\s*\(\s*\/\s*#/\<close>
        \<lparr> source = (Seq [Lit ''.replace'', ws, Lit ''('', ws, Lit ''/'', ws,
            Lit ''#'']), flags = '''' \<rparr>,
        \<comment> \<open>/\.replace\s*\(\s*\/\s*\\\*\\\*/\<close>
        \<lparr> source = (Seq [Lit ''.replace'', ws, Lit ''('', ws, Lit ''/'', ws,
            Lit ([CHR 0x5C] @ ''*'' @ [CHR 0x5C] @ ''*'')]), flags = '''' \<rparr>,
        \<comment> \<open>/\.split\s*\(\s*['"`]\\n['"`]\s*\)\s*\.\s*map/\<close>
        \<lparr> source = (Seq [Lit ''.split'', ws, Lit ''('', ws, quo,
            Lit ([CHR 0x5C] @ ''n''), quo, ws, Lit '')'', ws, Lit ''.'', ws, Lit ''map'']),
            flags = '''' \<rparr>
      ],
      confidenceBase = 0.65 \<rparr>,
    \<lparr> id_str = ''content-manual-mdx-processing'',
      domain = ''content-marketing'',
      description = ''Hand-rolled MDX/markdown file processing pipeline'',
      filePatterns = [''**/*.ts'', ''**/*.js''],
      codePatterns = [
        \<comment> \<open>/readFileSync\s*\(.*\.mdx?\b/i\<close>
        \<lparr> source = (Seq [Lit ''readFileSync'', ws, Lit ''('', Rep Dot Star, Lit ''.md'',
            Rep (Lit ''x'') Opt, WordB]), flags = ''i'' \<rparr>,
        \<comment> \<open>/glob\s*\(.*\.mdx?\b/i\<close>
        \<lparr> source = (Seq [Lit ''glob'', ws, Lit ''('', Rep Dot Star, Lit ''.md'',
            Rep (Lit ''x'') Opt, WordB]), flags = ''i'' \<rparr>,
        \<comment> \<open>/frontmatter|gray-matter/i\<close>
        \<lparr> source = (Alt [Lit ''frontmatter'', Lit ''gray-matter'']),
            flags = ''i'' \<rparr>
      ],
      confidenceBase = 0.6 \<rparr>,
    \<lparr> id_str = ''ab-test-manual-random-split'',
      domain = ''ab-testing-experimentation'',
      description = ''Hand-rolled A/B testing with Math.random() or cookie-based splits'',
      filePatterns = [''**/*.ts'', ''**/*.tsx'', ''**/*.js'', ''**/*.jsx''],
      codePatterns = [
        \<comment> \<open>/Math\s*\.\s*random\s*\(\s*\)\s*[<>]=?\s*0?\.\s*5/\<close>
        \<lparr> source = (Seq [Lit ''Math'', ws, Lit ''.'', ws, Lit ''random'', ws, Lit ''('',
            ws, Lit '')'', ws, Cls [Ch (CHR ''<''), Ch (CHR ''>'')], Rep (Lit ''='') Opt, ws,
            Rep (Lit ''0'') Opt, Lit ''.'', ws, Lit ''5'']), flags = '''' \<rparr>,
        \<comment> \<open>/variant\s*=\s*['"`][AB]['"`]/i\<close>
        \<lparr> source = (Seq [Lit ''variant'', ws, Lit ''='', ws, quo, Cls [Ch (CHR ''A''),
            Ch (CHR ''B'')], quo]), flags = ''i'' \<rparr>,
        \<comment> \<open>/experiment\s*[=:]\s*.*random/i\<close>
        \<lparr> source = (Seq [Lit ''experiment'', ws, Cls [Ch (CHR ''=''), Ch (CHR '':'')],
            ws, Rep Dot Star, Lit ''random'']), flags = ''i'' \<rparr>
      ],
      confidenceBase = 0.7 \<rparr>,
    \<lparr> id_str = ''analytics-manual-tracking'',
      domain = ''analytics-tracking'',
      description = ''Hand-rolled analytics/tracking calls instead of a product analytics SDK'',
      filePatterns = [''**/*.ts'', ''**/*.tsx'', ''**/*.js'', ''**/*.jsx''],
      codePatterns = [
        \<comment> \<open>/window\s*\.\s*dataLayer\s*\.\s*push\s*\(/\<close>
        \<lparr> source = (Seq [Lit ''window'', ws, Lit ''.'', ws, Lit ''dataLayer'', ws,
            Lit ''.'', ws, Lit ''push'', ws, Lit ''('']), flags = '''' \<rparr>,
        \<comment> \<open>/gtag\s*\(\s*['"`]event['"`]/\<close>
        \<lparr> source = (Seq [Lit ''gtag'', ws, Lit ''('', ws, quo, Lit ''event'', quo]),
            flags = '''' \<rparr>,
        \<comment> \<open>/fbq\s*\(\s*['"`]track['"`]/\<close>
        \<lparr> source = (Seq [Lit ''fbq'', ws, Lit ''('', ws, quo, Lit ''track'', quo]),
            flags = '''' \<rparr>,
        \<comment> \<open>/navigator\s*\.\s*sendBeacon\s*\(/\<close>
        \<lparr> source = (Seq [Lit ''navigator'', ws, Lit ''.'', ws, Lit ''sendBeacon'', ws,
            Lit ''('']), flags = '''' \<rparr>
      ],
      confidenceBase = 0.7 \<rparr>,
    \<lparr> id_str = ''agent-manual-tool-dispatch'',
      domain = ''agent-architecture'',
      description = ''Hand-rolled tool dispatch with switch/case or if/else chains'',
      filePatterns = [''**/*.ts'', ''**/*.js'', ''**/*.py''],
      codePatterns = [
        \<comment> \<open>/switch\s*\(\s*tool(?:Name|_name|Id)\s*\)/i\<close>
        \<lparr> source = (Seq [Lit ''switch'', ws, Lit ''('', ws, Lit ''tool'',
            Alt [Lit ''Name'', Lit ''_name'', Lit ''Id''], ws, Lit '')'']),
            flags = ''i'' \<rparr>,
        \<comment> \<open>/if\s*\(\s*tool(?:Name|_name)\s*===?\s*['"`]/i\<close>
        \<lparr> source = (Seq [Lit ''if'', ws, Lit ''('', ws, Lit ''tool'', Alt [Lit ''Name'',
            Lit ''_name''], ws, Lit ''=='', Rep (Lit ''='') Opt, ws, quo]),
            flags = ''i'' \<rparr>,
        \<comment> \<open>/tool_map\s*\[/i\<close>
        \<lparr> source = (Seq [Lit ''tool_map'', ws, Lit ''['']), flags = ''i'' \<rparr>
      ],
      confidenceBase = 0.7 \<rparr>,
    \<lparr> id_str = ''agent-manual-context-window'',
      domain = ''agent-architecture'',
      description = ''Hand-rolled context window management (token counting, truncation)'',
      filePatterns = [''**/*.ts'', ''**/*.js'', ''**/*.py''],
      codePatterns = [
        \<comment> \<open>/token[_s]?\s*(?:count|length|limit)/i\<close>
        \<lparr> source = (Seq [Lit ''token'', Rep (Cls [Ch (CHR ''_''), Ch (CHR ''s'')]) Opt,
            ws, Alt [Lit ''count'', Lit ''length'', Lit ''limit'']]), flags = ''i'' \<rparr>,
        \<comment> \<open>/truncat(?:e|ion)\s*.*(?:context|message|prompt)/i\<close>
        \<lparr> source = (Seq [Lit ''truncat'', Alt [Lit ''e'', Lit ''ion''], ws,
            Rep Dot Star, Alt [Lit ''context'', Lit ''message'', Lit ''prompt'']]),
            flags = ''i'' \<rparr>,
        \<comment> \<open>/maxTokens?\s*[=:]/i\<close>
        \<lparr> source = (Seq [Lit ''maxToken'', Rep (Lit ''s'') Opt, ws, Cls [Ch (CHR ''=''),
            Ch (CHR '':'')]]), flags = ''i'' \<rparr>
      ],
      confidenceBase = 0.6 \<rparr>,
    \<lparr> id_str = ''state-manual-usestate-chain'',
      domain = ''state-management'',
      description = ''Multiple related useState hooks that should be a single store'',
      filePatterns = [''**/*.tsx'', ''**/*.jsx''],
      codePatterns = [
        \<comment> \<open>/useState\s*\(.*\);\s*\n\s*const\s*\[.*\]\s*=\s*useState\s*\(.*\);\s*\n\s*const\s*\[.*\]\s*=\s*useState/\<close>
        \<lparr> source = (Seq [Lit ''useState'', ws, Lit ''('', Rep Dot Star, Lit '');'', ws,
            Lit ''\<newline>'', ws, Lit ''const'', ws, Lit ''['', Rep Dot Star, Lit '']'', ws,
            Lit ''='', ws, Lit ''useState'', ws, Lit ''('', Rep Dot Star, Lit '');'', ws,
            Lit ''\<newline>'', ws, Lit ''const'', ws, Lit ''['', Rep Dot Star, Lit '']'', ws,
            Lit ''='', ws, Lit ''useState'']), flags = '''' \<rparr>,
        \<comment> \<open>/const\s*\[\w+,\s*set\w+\]\s*=\s*useState[\s\S]{0,100}const\s*\[\w+,\s*set\w+\]\s*=\s*useState[\s\S]{0,100}const\s*\[\w+,\s*set\w+\]\s*=\s*useState/\<close>
        \<lparr> source = (Seq [Lit ''const'', ws, Lit ''['', Rep (Esc WordCh) Plus, Lit '','',
            ws, Lit ''set'', Rep (Esc WordCh) Plus, Lit '']'', ws, Lit ''='', ws,
            Lit ''useState'', Rep anyCh (Count 0 100), Lit ''const'', ws, Lit ''['',
            Rep (Esc WordCh) Plus, Lit '','', ws, Lit ''set'', Rep (Esc WordCh) Plus,
            Lit '']'', ws, Lit ''='', ws, Lit ''useState'', Rep anyCh (Count 0 100),
            Lit ''const'', ws, Lit ''['', Rep (Esc WordCh) Plus, Lit '','', ws, Lit ''set'',
            Rep (Esc WordCh) Plus, Lit '']'', ws, Lit ''='', ws, Lit ''useState'']),
            flags = '''' \<rparr>
      ],
      confidenceBase = 0.6 \<rparr>,
    \<lparr> id_str = ''state-manual-context-provider'',
      domain = ''state-management'',
      description = ''Hand-rolled React Context for global state management'',
      filePatterns = [''**/*.tsx'', ''**/*.jsx'', ''**/*.ts'', ''**/*.js''],
      codePatterns = [
        \<comment> \<open>/createContext\s*<[\s\S]*>\s*\(/\<close>
        \<lparr> source = (Seq [Lit ''createContext'', ws, Lit ''<'', Rep anyCh Star,
            Lit ''>'', ws, Lit ''('']), flags = '''' \<rparr>,
        \<comment> \<open>/useReducer\s*\(\s*\w+Reducer/\<close>
        \<lparr> source = (Seq [Lit ''useReducer'', ws, Lit ''('', ws, Rep (Esc WordCh) Plus,
            Lit ''Reducer'']), flags = '''' \<rparr>,
        \<comment> \<open>/Provider\s+value\s*=\s*\{[\s\S]*dispatch/\<close>
        \<lparr> source = (Seq [Lit ''Provider'', ws1, Lit ''value'', ws, Lit ''='', ws,
            Lit ''{'', Rep anyCh Star, Lit ''dispatch'']), flags = '''' \<rparr>
      ],
      confidenceBase = 0.55 \<rparr>,
    \<lparr> id_str = ''state-manual-redux-boilerplate'',
      domain = ''state-management'',
      description = ''Redux boilerplate without Redux Toolkit (manual action creators, reducers)'',
      filePatterns = [''**/*.ts'', ''**/*.js''],
      codePatterns = [
        \<comment> \<open>/type\s*:\s*['"`][A-Z_]+['"`]\s*,\s*payload/\<close>
        \<lparr> source = (Seq [Lit ''type'', ws, Lit '':'', ws, quo,
            Rep (Cls [Rng (CHR ''A'') (CHR ''Z''), Ch (CHR ''_'')]) Plus, quo, ws, Lit '','',
            ws, Lit ''payload'']), flags = '''' \<rparr>,
        \<comment> \<open>/switch\s*\(\s*action\s*\.\s*type\s*\)/\<close>
        \<lparr> source = (Seq [Lit ''switch'', ws, Lit ''('', ws, Lit ''action'', ws,
            Lit ''.'', ws, Lit ''type'', ws, Lit '')'']), flags = '''' \<rparr>,
        \<comment> \<open>/const\s+\w+\s*=\s*\(\s*state\s*=\s*initialState\s*,\s*action\s*\)/\<close>
        \<lparr> source = (Seq [Lit ''const'', ws1, Rep (Esc WordCh) Plus, ws, Lit ''='', ws,
            Lit ''('', ws, Lit ''state'', ws, Lit ''='', ws, Lit ''initialState'', ws,
            Lit '','', ws, Lit ''action'', ws, Lit '')'']), flags = '''' \<rparr>
      ],
      confidenceBase = 0.75 \<rparr>,
    \<lparr> id_str = ''data-fetch-useeffect'',
      domain = ''data-fetching-caching'',
      description = ''Manual data fetching with fetch/axios inside useEffect'',
      filePatterns = [''**/*.tsx'', ''**/*.jsx''],
      codePatterns = [
        \<comment> \<open>/useEffect\s*\(\s*\(\s*\)\s*=>\s*\{[\s\S]{0,200}fetch\s*\(/\<close>
        \<lparr> source = (Seq [Lit ''useEffect'', ws, Lit ''('', ws, Lit ''('', ws, Lit '')'',
            ws, Lit ''=>'', ws, Lit ''{'', Rep anyCh (Count 0 200), Lit ''fetch'', ws,
            Lit ''('']), flags = '''' \<rparr>,
        \<comment> \<open>/useEffect\s*\(\s*\(\s*\)\s*=>\s*\{[\s\S]{0,200}axios\s*\.\s*get/\<close>
        \<lparr> source = (Seq [Lit ''useEffect'', ws, Lit ''('', ws, Lit ''('', ws, Lit '')'',
            ws, Lit ''=>'', ws, Lit ''{'', Rep anyCh (Count 0 200), Lit ''axios'', ws,
            Lit ''.'', ws, Lit ''get'']), flags = '''' \<rparr>,
        \<comment> \<open>/useEffect\s*\(\s*\(\s*\)\s*=>\s*\{[\s\S]{0,100}setLoading\s*\(\s*true\s*\)/\<close>
        \<lparr> source = (Seq [Lit ''useEffect'', ws, Lit ''('', ws, Lit ''('', ws, Lit '')'',
            ws, Lit ''=>'', ws, Lit ''{'', Rep anyCh (Count 0 100), Lit ''setLoading'', ws,
            Lit ''('', ws, Lit ''true'', ws, Lit '')'']), flags = '''' \<rparr>
      ],
      confidenceBase = 0.7 \<rparr>,
    \<lparr> id_str = ''data-fetch-manual-cache'',
      domain = ''data-fetching-caching'',
      description = ''Hand-rolled client-side data cache with Map or object'',
      filePatterns = [''**/*.ts'', ''**/*.tsx'', ''**/*.js'', ''**/*.jsx''],
      codePatterns = [
        \<comment> \<open>/new\s+Map\s*<.*,.*>\s*\(\s*\)[\s\S]{0,200}\.set\s*\([\s\S]{0,100}\.get\s*\(/\<close>
        \<lparr> source = (Seq [Lit ''new'', ws1, Lit ''Map'', ws, Lit ''<'', Rep Dot Star,
            Lit '','', Rep Dot Star, Lit ''>'', ws, Lit ''('', ws, Lit '')'',
            Rep anyCh (Count 0 200), Lit ''.set'', ws, Lit ''('', Rep anyCh (Count 0 100),
            Lit ''.get'', ws, Lit ''('']), flags = '''' \<rparr>,
        \<comment> \<open>/cache\s*\[\s*\w+\s*\]\s*=[\s\S]{0,100}cache\s*\[\s*\w+\s*\]/\<close>
        \<lparr> source = (Seq [Lit ''cache'', ws, Lit ''['', ws, Rep (Esc WordCh) Plus, ws,
            Lit '']'', ws, Lit ''='', Rep anyCh (Count 0 100), Lit ''cache'', ws, Lit ''['',
            ws, Rep (Esc WordCh) Plus, ws, Lit '']'']), flags = '''' \<rparr>,
        \<comment> \<open>/const\s+cache\s*=\s*(?:new\s+Map|{})/\<close>
        \<lparr> source = (Seq [Lit ''const'', ws1, Lit ''cache'', ws, Lit ''='', ws,
            Alt [Seq [Lit ''new'', ws1, Lit ''Map''], Lit ''{}'']]), flags = '''' \<rparr>
      ],
      confidenceBase = 0.6 \<rparr>,
    \<lparr> id_str = ''data-fetch-manual-retry'',
      domain = ''data-fetching-caching'',
      description = ''Hand-rolled fetch retry logic with loops or recursion'',
      filePatterns = [''**/*.ts'', ''**/*.js''],
      codePatterns = [
        \<comment> \<open>/retry\s*[<>=]\s*\d+[\s\S]{0,200}fetch\s*\(/i\<close>
        \<lparr> source = (Seq [Lit ''retry'', ws, Cls [Ch (CHR ''<''), Ch (CHR ''>''),
            Ch (CHR ''='')], ws, Rep (Esc Digit) Plus, Rep anyCh (Count 0 200), Lit ''fetch'',
            ws, Lit ''('']), flags = ''i'' \<rparr>,
        \<comment> \<open>/for\s*\(\s*let\s+\w+\s*=\s*0[\s\S]{0,200}fetch\s*\(/\<close>
        \<lparr> source = (Seq [Lit ''for'', ws, Lit ''('', ws, Lit ''let'', ws1,
            Rep (Esc WordCh) Plus, ws, Lit ''='', ws, Lit ''0'', Rep anyCh (Count 0 200),
            Lit ''fetch'', ws, Lit ''('']), flags = '''' \<rparr>,
        \<comment> \<open>/attempts?\s*[+\-]=\s*1[\s\S]{0,100}(?:fetch|axios)/i\<close>
        \<lparr> source = (Seq [Lit ''attempt'', Rep (Lit ''s'') Opt, ws, Cls [Ch (CHR ''+''),
            Ch (CHR ''-'')], Lit ''='', ws, Lit ''1'', Rep anyCh (Count 0 100),
            Alt [Lit ''fetch'', Lit ''axios'']]), flags = ''i'' \<rparr>
      ],
      confidenceBase = 0.7 \<rparr>,
    \<lparr> id_str = ''error-manual-error-boundary'',
      domain = ''error-handling-resilience'',
      description = ''Hand-rolled error boundary class component'',
      filePatterns = [''**/*.tsx'', ''**/*.jsx'', ''**/*.ts'', ''**/*.js''],
      codePatterns = [
        \<comment> \<open>/componentDidCatch\s*\(/\<close>
        \<lparr> source = (Seq [Lit ''componentDidCatch'', ws, Lit ''('']),
            flags = '''' \<rparr>,
        \<comment> \<open>/getDerivedStateFromError\s*\(/\<close>
        \<lparr> source = (Seq [Lit ''getDerivedStateFromError'', ws, Lit ''('']),
            flags = '''' \<rparr>,
        \<comment> \<open>/class\s+\w*ErrorBoundary\s+extends\s+(?:React\.)?Component/\<close>
        \<lparr> source = (Seq [Lit ''class'', ws1, Rep (Esc WordCh) Star,
            Lit ''ErrorBoundary'', ws1, Lit ''extends'', ws1, Rep (Lit ''React.'') Opt,
            Lit ''Component'']), flags = '''' \<rparr>
      ],
      confidenceBase = 0.8 \<rparr>,
    \<lparr> id_str = ''error-manual-result-type'',
      domain = ''error-handling-resilience'',
      description = ''Hand-rolled Result/Either type for error handling'',
      filePatterns = [''**/*.ts'', ''**/*.js''],
      codePatterns = [
        \<comment> \<open>/type\s+Result\s*<[\s\S]*>\s*=\s*\{?\s*(?:success|ok|data|error)/i\<close>
        \<lparr> source = (Seq [Lit ''type'', ws1, Lit ''Result'', ws, Lit ''<'',
            Rep anyCh Star, Lit ''>'', ws, Lit ''='', ws, Rep (Lit ''{'') Opt, ws,
            Alt [Lit ''success'', Lit ''ok'', Lit ''data'', Lit ''error'']]),
            flags = ''i'' \<rparr>,
        \<comment> \<open>/interface\s+(?:Result|Either)\s*<[\s\S]*>\s*\{/i\<close>
        \<lparr> source = (Seq [Lit ''interface'', ws1, Alt [Lit ''Result'', Lit ''Either''],
            ws, Lit ''<'', Rep anyCh Star, Lit ''>'', ws, Lit ''{'']), flags = ''i'' \<rparr>,
        \<comment> \<open>/\{\s*ok\s*:\s*true[\s\S]{0,50}data\s*:[\s\S]{0,100}\{\s*ok\s*:\s*false[\s\S]{0,50}error\s*:/\<close>
        \<lparr> source = (Seq [Lit ''{'', ws, Lit ''ok'', ws, Lit '':'', ws, Lit ''true'',
            Rep anyCh (Count 0 50), Lit ''data'', ws, Lit '':'', Rep anyCh (Count 0 100),
            Lit ''{'', ws, Lit ''ok'', ws, Lit '':'', ws, Lit ''false'',
            Rep anyCh (Count 0 50), Lit ''error'', ws, Lit '':'']), flags = '''' \<rparr>
      ],
      confidenceBase = 0.65 \<rparr>,
    \<lparr> id_str = ''realtime-manual-websocket'',
      domain = ''realtime-collaboration'',
      description = ''Hand-rolled WebSocket connection management'',
      filePatterns = [''**/*.ts'', ''**/*.tsx'', ''**/*.js'', ''**/*.jsx''],
      codePatterns = [
        \<comment> \<open>/new\s+WebSocket\s*\(/\<close>
        \<lparr> source = (Seq [Lit ''new'', ws1, Lit ''WebSocket'', ws, Lit ''('']),
            flags = '''' \<rparr>,
        \<comment> \<open>/\.onmessage\s*=\s*/\<close>
        \<lparr> source = (Seq [Lit ''.onmessage'', ws, Lit ''='', ws]), flags = '''' \<rparr>,
        \<comment> \<open>/\.send\s*\(\s*JSON\s*\.\s*stringify/\<close>
        \<lparr> source = (Seq [Lit ''.send'', ws, Lit ''('', ws, Lit ''JSON'', ws, Lit ''.'',
            ws, Lit ''stringify'']), flags = '''' \<rparr>
      ],
      confidenceBase = 0.65 \<rparr>,
    \<lparr> id_str = ''upload-manual-filereader'',
      domain = ''file-upload-media'',
      description = ''Hand-rolled file reading with FileReader API'',
      filePatterns = [''**/*.ts'', ''**/*.tsx'', ''**/*.js'', ''**/*.jsx''],
      codePatterns = [
        \<comment> \<open>/new\s+FileReader\s*\(\s*\)/\<close>
        \<lparr> source = (Seq [Lit ''new'', ws1, Lit ''FileReader'', ws, Lit ''('', ws,
            Lit '')'']), flags = '''' \<rparr>,
        \<comment> \<open>/readAsDataURL\s*\(/\<close>
        \<lparr> source = (Seq [Lit ''readAsDataURL'', ws, Lit ''('']), flags = '''' \<rparr>,
        \<comment> \<open>/readAsArrayBuffer\s*\(/\<close>
        \<lparr> source = (Seq [Lit ''readAsArrayBuffer'', ws, Lit ''('']),
            flags = '''' \<rparr>
      ],
      confidenceBase = 0.6 \<rparr>,
    \<lparr> id_str = ''upload-manual-drag-drop'',
      domain = ''file-upload-media'',
      description = ''Hand-rolled drag-and-drop file upload handling'',
      filePatterns = [''**/*.tsx'', ''**/*.jsx'', ''**/*.ts'', ''**/*.js''],
      codePatterns = [
        \<comment> \<open>/addEventListener\s*\(\s*['"`](?:dragover|dragenter|drop)['"`]/\<close>
        \<lparr> source = (Seq [Lit ''addEventListener'', ws, Lit ''('', ws, quo,
            Alt [Lit ''dragover'', Lit ''dragenter'', Lit ''drop''], quo]),
            flags = '''' \<rparr>,
        \<comment> \<open>/onDrop\s*=\s*\{[\s\S]{0,200}dataTransfer\s*\.\s*files/\<close>
        \<lparr> source = (Seq [Lit ''onDrop'', ws, Lit ''='', ws, Lit ''{'',
            Rep anyCh (Count 0 200), Lit ''dataTransfer'', ws, Lit ''.'', ws, Lit ''files'']),
            flags = '''' \<rparr>,
        \<comment> \<open>/e\s*\.\s*dataTransfer\s*\.\s*files/\<close>
        \<lparr> source = (Seq [Lit ''e'', ws, Lit ''.'', ws, Lit ''dataTransfer'', ws,
            Lit ''.'', ws, Lit ''files'']), flags = '''' \<rparr>
      ],
      confidenceBase = 0.65 \<rparr>,
    \<lparr> id_str = ''db-manual-raw-sql'',
      domain = ''database-orm-migrations'',
      description = ''Hand-rolled raw SQL queries with string interpolation'',
      filePatterns = [''**/*.ts'', ''**/*.js''],
      codePatterns = [
        \<comment> \<open>/`SELECT\s[\s\S]*FROM\s[\s\S]*\$\{/i\<close>
        \<lparr> source = (Seq [Lit ''`SELECT'', Esc Space, Rep anyCh Star, Lit ''FROM'',
            Esc Space, Rep anyCh Star, Lit ''${'']), flags = ''i'' \<rparr>,
        \<comment> \<open>/`INSERT\s+INTO\s[\s\S]*\$\{/i\<close>
        \<lparr> source = (Seq [Lit ''`INSERT'', ws1, Lit ''INTO'', Esc Space, Rep anyCh Star,
            Lit ''${'']), flags = ''i'' \<rparr>,
        \<comment> \<open>/`UPDATE\s[\s\S]*SET\s[\s\S]*\$\{/i\<close>
        \<lparr> source = (Seq [Lit ''`UPDATE'', Esc Space, Rep anyCh Star, Lit ''SET'',
            Esc Space, Rep anyCh Star, Lit ''${'']), flags = ''i'' \<rparr>,
        \<comment> \<open>/query\s*\(\s*['"`](?:SELECT|INSERT|UPDATE|DELETE)\b/i\<close>
        \<lparr> source = (Seq [Lit ''query'', ws, Lit ''('', ws, quo, Alt [Lit ''SELECT'',
            Lit ''INSERT'', Lit ''UPDATE'', Lit ''DELETE''], WordB]), flags = ''i'' \<rparr>
      ],
      confidenceBase = 0.7 \<rparr>,
    \<lparr> id_str = ''db-manual-migration-script'',
      domain = ''database-orm-migrations'',
      description = ''Hand-rolled database migration with CREATE TABLE / ALTER TABLE'',
      filePatterns = [''**/*.ts'', ''**/*.js'', ''**/*.sql''],
      codePatterns = [
        \<comment> \<open>/CREATE\s+TABLE\s+(?:IF\s+NOT\s+EXISTS\s+)?\w+/i\<close>
        \<lparr> source = (Seq [Lit ''CREATE'', ws1, Lit ''TABLE'', ws1, Rep (Seq [Lit ''IF'',
            ws1, Lit ''NOT'', ws1, Lit ''EXISTS'', ws1]) Opt, Rep (Esc WordCh) Plus]),
            flags = ''i'' \<rparr>,
        \<comment> \<open>/ALTER\s+TABLE\s+\w+\s+(?:ADD|DROP|MODIFY)/i\<close>
        \<lparr> source = (Seq [Lit ''ALTER'', ws1, Lit ''TABLE'', ws1, Rep (Esc WordCh) Plus,
            ws1, Alt [Lit ''ADD'', Lit ''DROP'', Lit ''MODIFY'']]), flags = ''i'' \<rparr>,
        \<comment> \<open>/\.exec\s*\(\s*['"`](?:CREATE|ALTER|DROP)\s/i\<close>
        \<lparr> source = (Seq [Lit ''.exec'', ws, Lit ''('', ws, quo, Alt [Lit ''CREATE'',
            Lit ''ALTER'', Lit ''DROP''], Esc Space]), flags = ''i'' \<rparr>
      ],
      confidenceBase = 0.65 \<rparr>,
    \<lparr> id_str = ''ratelimit-manual-counter'',
      domain = ''caching-rate-limit'',
      description = ''Hand-rolled rate limiting with in-memory counters or timestamps'',
      filePatterns = [''**/*.ts'', ''**/*.js''],
      codePatterns = [
        \<comment> \<open>/requestCount\s*[+]=\s*1/i\<close>
        \<lparr> source = (Seq [Lit ''requestCount'', ws, Cls [Ch (CHR ''+'')], Lit ''='', ws,
            Lit ''1'']), flags = ''i'' \<rparr>,
        \<comment> \<open>/rateLimi(?:t|ter)/i\<close>
        \<lparr> source = (Seq [Lit ''rateLimi'', Alt [Lit ''t'', Lit ''ter'']]),
            flags = ''i'' \<rparr>,
        \<comment> \<open>/new\s+Map\s*\(\s*\).*(?:timestamp|count|window)/i\<close>
        \<lparr> source = (Seq [Lit ''new'', ws1, Lit ''Map'', ws, Lit ''('', ws, Lit '')'',
            Rep Dot Star, Alt [Lit ''timestamp'', Lit ''count'', Lit ''window'']]),
            flags = ''i'' \<rparr>
      ],
      confidenceBase = 0.65 \<rparr>,
    \<lparr> id_str = ''feature-flags-manual-env'',
      domain = ''feature-flags-config'',
      description = ''Hand-rolled feature flag checks via environment variables or config objects'',
      filePatterns = [''**/*.ts'', ''**/*.tsx'', ''**/*.js'', ''**/*.jsx''],
      codePatterns = [
        \<comment> \<open>/process\s*\.\s*env\s*\.\s*FEATURE_/\<close>
        \<lparr> source = (Seq [Lit ''process'', ws, Lit ''.'', ws, Lit ''env'', ws, Lit ''.'',
            ws, Lit ''FEATURE_'']), flags = '''' \<rparr>,
        \<comment> \<open>/featureFlags?\s*\[/\<close>
        \<lparr> source = (Seq [Lit ''featureFlag'', Rep (Lit ''s'') Opt, ws, Lit ''['']),
            flags = '''' \<rparr>,
        \<comment> \<open>/isFeatureEnabled\s*\(/\<close>
        \<lparr> source = (Seq [Lit ''isFeatureEnabled'', ws, Lit ''('']), flags = '''' \<rparr>
      ],
      confidenceBase = 0.6 \<rparr>,
    \<lparr> id_str = ''auth-manual-jwt-handling'',
      domain = ''auth-security'',
      description = ''Hand-rolled JWT token creation/verification'',
      filePatterns = [''**/*.ts'', ''**/*.js'', ''**/*.py''],
      codePatterns = [
        \<comment> \<open>/atob\s*\(\s*.*split\s*\(\s*['"`]\.['"`]\s*\)/\<close>
        \<lparr> source = (Seq [Lit ''atob'', ws, Lit ''('', ws, Rep Dot Star, Lit ''split'',
            ws, Lit ''('', ws, quo, Lit ''.'', quo, ws, Lit '')'']), flags = '''' \<rparr>,
        \<comment> \<open>/Buffer\s*\.\s*from\s*\(.*['"`]base64['"`]\s*\)/\<close>
        \<lparr> source = (Seq [Lit ''Buffer'', ws, Lit ''.'', ws, Lit ''from'', ws, Lit ''('',
            Rep Dot Star, quo, Lit ''base64'', quo, ws, Lit '')'']), flags = '''' \<rparr>,
        \<comment> \<open>/jwt\s*\.\s*sign\s*\(/i\<close>
        \<lparr> source = (Seq [Lit ''jwt'', ws, Lit ''.'', ws, Lit ''sign'', ws, Lit ''('']),
            flags = ''i'' \<rparr>,
        \<comment> \<open>/createHmac\s*\(/\<close>
        \<lparr> source = (Seq [Lit ''createHmac'', ws, Lit ''('']), flags = '''' \<rparr>
      ],
      confidenceBase = 0.75 \<rparr>,
    \<lparr> id_str = ''security-manual-headers'',
      domain = ''security-hardening'',
      description = ''Hand-rolled security headers instead of helmet/middleware'',
      filePatterns = [''**/*.ts'', ''**/*.js''],
      codePatterns = [
        \<comment> \<open>/setHeader\s*\(\s*['"`]X-Frame-Options['"`]/i\<close>
        \<lparr> source = (Seq [Lit ''setHeader'', ws, Lit ''('', ws, quo,
            Lit ''X-Frame-Options'', quo]), flags = ''i'' \<rparr>,
        \<comment> \<open>/setHeader\s*\(\s*['"`]X-Content-Type-Options['"`]/i\<close>
        \<lparr> source = (Seq [Lit ''setHeader'', ws, Lit ''('', ws, quo,
            Lit ''X-Content-Type-Options'', quo]), flags = ''i'' \<rparr>,
        \<comment> \<open>/setHeader\s*\(\s*['"`]Content-Security-Policy['"`]/i\<close>
        \<lparr> source = (Seq [Lit ''setHeader'', ws, Lit ''('', ws, quo,
            Lit ''Content-Security-Policy'', quo]), flags = ''i'' \<rparr>
      ],
      confidenceBase = 0.7 \<rparr>,
    \<lparr> id_str = ''observability-manual-logging'',
      domain = ''observability'',
      description = ''Hand-rolled logging with console.log/console.error in production code'',
      filePatterns = [''**/*.ts'', ''**/*.js'', ''**/*.tsx'', ''**/*.jsx''],
      codePatterns = [
        \<comment> \<open>/console\s*\.\s*(?:log|error|warn|info)\s*\(/\<close>
        \<lparr> source = (Seq [Lit ''console'', ws, Lit ''.'', ws, Alt [Lit ''log'',
            Lit ''error'', Lit ''warn'', Lit ''info''], ws, Lit ''('']), flags = '''' \<rparr>
      ],
      confidenceBase = 0.55 \<rparr>,
    \<lparr> id_str = ''error-monitoring-manual-tracking'',
      domain = ''error-monitoring'',
      description = ''Hand-rolled error tracking with try/catch and HTTP reporting'',
      filePatterns = [''**/*.ts'', ''**/*.js'', ''**/*.tsx'', ''**/*.jsx''],
      codePatterns = [
        \<comment> \<open>/catch\s*\(\s*\w+\s*\)\s*\{[^}]*fetch\s*\(/\<close>
        \<lparr> source = (Seq [Lit ''catch'', ws, Lit ''('', ws, Rep (Esc WordCh) Plus, ws,
            Lit '')'', ws, Lit ''{'', Rep (NCls [Ch (CHR ''}'')]) Star, Lit ''fetch'', ws,
            Lit ''('']), flags = '''' \<rparr>,
        \<comment> \<open>/window\s*\.\s*onerror/\<close>
        \<lparr> source = (Seq [Lit ''window'', ws, Lit ''.'', ws, Lit ''onerror'']),
            flags = '''' \<rparr>,
        \<comment> \<open>/process\s*\.\s*on\s*\(\s*['"`]uncaughtException['"`]/\<close>
        \<lparr> source = (Seq [Lit ''process'', ws, Lit ''.'', ws, Lit ''on'', ws, Lit ''('',
            ws, quo, Lit ''uncaughtException'', quo]), flags = '''' \<rparr>
      ],
      confidenceBase = 0.7 \<rparr>,
    \<lparr> id_str = ''metrics-manual-timing'',
      domain = ''logging-tracing-metrics'',
      description = ''Hand-rolled performance timing with Date.now() or performance.now()'',
      filePatterns = [''**/*.ts'', ''**/*.js'', ''**/*.tsx'', ''**/*.jsx''],
      codePatterns = [
        \<comment> \<open>/const\s+\w*[Ss]tart\w*\s*=\s*(?:Date|performance)\s*\.\s*now\s*\(\s*\)/\<close>
        \<lparr> source = (Seq [Lit ''const'', ws1, Rep (Esc WordCh) Star, Cls [Ch (CHR ''S''),
            Ch (CHR ''s'')], Lit ''tart'', Rep (Esc WordCh) Star, ws, Lit ''='', ws,
            Alt [Lit ''Date'', Lit ''performance''], ws, Lit ''.'', ws, Lit ''now'', ws,
            Lit ''('', ws, Lit '')'']), flags = '''' \<rparr>,
        \<comment> \<open>/(?:Date|performance)\s*\.\s*now\s*\(\s*\)\s*-\s*\w*[Ss]tart/\<close>
        \<lparr> source = (Seq [Alt [Lit ''Date'', Lit ''performance''], ws, Lit ''.'', ws,
            Lit ''now'', ws, Lit ''('', ws, Lit '')'', ws, Lit ''-'', ws,
            Rep (Esc WordCh) Star, Cls [Ch (CHR ''S''), Ch (CHR ''s'')], Lit ''tart'']),
            flags = '''' \<rparr>,
        \<comment> \<open>/console\s*\.\s*time\s*\(/\<close>
        \<lparr> source = (Seq [Lit ''console'', ws, Lit ''.'', ws, Lit ''time'', ws,
            Lit ''('']), flags = '''' \<rparr>
      ],
      confidenceBase = 0.55 \<rparr>,
    \<lparr> id_str = ''metrics-manual-structured-log'',
      domain = ''logging-tracing-metrics'',
      description = ''Hand-rolled structured logging with JSON.stringify'',
      filePatterns = [''**/*.ts'', ''**/*.js''],
      codePatterns = [
        \<comment> \<open>/console\s*\.\s*(?:log|info)\s*\(\s*JSON\s*\.\s*stringify\s*\(/\<close>
        \<lparr> source = (Seq [Lit ''console'', ws, Lit ''.'', ws, Alt [Lit ''log'',
            Lit ''info''], ws, Lit ''('', ws, Lit ''JSON'', ws, Lit ''.'', ws,
            Lit ''stringify'', ws, Lit ''('']), flags = '''' \<rparr>,
        \<comment> \<open>/console\s*\.\s*(?:log|info)\s*\(\s*\{[\s\S]{0,200}(?:timestamp|level|message)/i\<close>
        \<lparr> source = (Seq [Lit ''console'', ws, Lit ''.'', ws, Alt [Lit ''log'',
            Lit ''info''], ws, Lit ''('', ws, Lit ''{'', Rep anyCh (Count 0 200),
            Alt [Lit ''timestamp'', Lit ''level'', Lit ''message'']]), flags = ''i'' \<rparr>
      ],
      confidenceBase = 0.7 \<rparr>,
    \<lparr> id_str = ''test-manual-assertions'',
      domain = ''testing-strategy'',
      description = ''Hand-rolled test assertions without a test framework'',
      filePatterns = [''**/*.test.ts'', ''**/*.test.js'', ''**/*.spec.ts'', ''**/*.spec.js''],
      codePatterns = [
        \<comment> \<open>/if\s*\([\s\S]{0,50}!==[\s\S]{0,50}\)\s*throw\s+new\s+Error/\<close>
        \<lparr> source = (Seq [Lit ''if'', ws, Lit ''('', Rep anyCh (Count 0 50), Lit ''!=='',
            Rep anyCh (Count 0 50), Lit '')'', ws, Lit ''throw'', ws1, Lit ''new'', ws1,
            Lit ''Error'']), flags = '''' \<rparr>,
        \<comment> \<open>/assert\s*\.\s*(?:equal|strictEqual|deepEqual)\s*\(/\<close>
        \<lparr> source = (Seq [Lit ''assert'', ws, Lit ''.'', ws, Alt [Lit ''equal'',
            Lit ''strictEqual'', Lit ''deepEqual''], ws, Lit ''('']), flags = '''' \<rparr>,
        \<comment> \<open>/console\s*\.\s*assert\s*\(/\<close>
        \<lparr> source = (Seq [Lit ''console'', ws, Lit ''.'', ws, Lit ''assert'', ws,
            Lit ''('']), flags = '''' \<rparr>
      ],
      confidenceBase = 0.7 \<rparr>,
    \<lparr> id_str = ''test-manual-mocks'',
      domain = ''testing-strategy'',
      description = ''Hand-rolled mock/stub implementations'',
      filePatterns = [''**/*.test.ts'', ''**/*.test.js'', ''**/*.spec.ts'', ''**/*.spec.js''],
      codePatterns = [
        \<comment> \<open>/const\s+mock\w+\s*=\s*\(\s*\)\s*=>\s*(?:Promise\s*\.\s*resolve|{)/i\<close>
        \<lparr> source = (Seq [Lit ''const'', ws1, Lit ''mock'', Rep (Esc WordCh) Plus, ws,
            Lit ''='', ws, Lit ''('', ws, Lit '')'', ws, Lit ''=>'', ws,
            Alt [Seq [Lit ''Promise'', ws, Lit ''.'', ws, Lit ''resolve''], Lit ''{'']]),
            flags = ''i'' \<rparr>,
        \<comment> \<open>/jest\s*\.\s*fn\s*\(\s*\)/\<close>
        \<lparr> source = (Seq [Lit ''jest'', ws, Lit ''.'', ws, Lit ''fn'', ws, Lit ''('', ws,
            Lit '')'']), flags = '''' \<rparr>,
        \<comment> \<open>/sinon\s*\.\s*stub\s*\(/\<close>
        \<lparr> source = (Seq [Lit ''sinon'', ws, Lit ''.'', ws, Lit ''stub'', ws,
            Lit ''('']), flags = '''' \<rparr>
      ],
      confidenceBase = 0.5 \<rparr>,
    \<lparr> id_str = ''perf-unoptimized-images'',
      domain = ''performance-web-vitals'',
      description = ''Using raw <img> tags instead of optimized image components'',
      filePatterns = [''**/*.tsx'', ''**/*.jsx''],
      codePatterns = [
        \<comment> \<open>/<img\s[^>]*src\s*=\s*\{/\<close>
        \<lparr> source = (Seq [Lit ''<img'', Esc Space, Rep (NCls [Ch (CHR ''>'')]) Star,
            Lit ''src'', ws, Lit ''='', ws, Lit ''{'']), flags = '''' \<rparr>,
        \<comment> \<open>/<img\s[^>]*src\s*=\s*['"`](?:https?:|\/)/\<close>
        \<lparr> source = (Seq [Lit ''<img'', Esc Space, Rep (NCls [Ch (CHR ''>'')]) Star,
            Lit ''src'', ws, Lit ''='', ws, quo, Alt [Seq [Lit ''http'', Rep (Lit ''s'') Opt,
            Lit '':''], Lit ''/'']]), flags = '''' \<rparr>
      ],
      confidenceBase = 0.5 \<rparr>,
    \<lparr> id_str = ''ai-manual-prompt-template'',
      domain = ''ai-model-serving'',
      description = ''Hand-rolled prompt template string interpolation'',
      filePatterns = [''**/*.ts'', ''**/*.tsx'', ''**/*.js'', ''**/*.jsx'', ''**/*.py''],
      codePatterns = [
        \<comment> \<open>/`[^`]*\$\{.*\}[^`]*`\s*.*(?:prompt|system|user|assistant)/i\<close>
        \<lparr> source = (Seq [Lit ''`'', Rep (NCls [Ch (CHR 0x60)]) Star, Lit ''${'',
            Rep Dot Star, Lit ''}'', Rep (NCls [Ch (CHR 0x60)]) Star, Lit ''`'', ws,
            Rep Dot Star, Alt [Lit ''prompt'', Lit ''system'', Lit ''user'',
            Lit ''assistant'']]), flags = ''i'' \<rparr>,
        \<comment> \<open>/f['"].*\{.*\}.*['"].*(?:prompt|model|completion)/i\<close>
        \<lparr> source = (Seq [Lit ''f'', Cls [Ch (CHR 0x27), Ch (CHR 0x22)], Rep Dot Star,
            Lit ''{'', Rep Dot Star, Lit ''}'', Rep Dot Star, Cls [Ch (CHR 0x27),
            Ch (CHR 0x22)], Rep Dot Star, Alt [Lit ''prompt'', Lit ''model'',
            Lit ''completion'']]), flags = ''i'' \<rparr>,
        \<comment> \<open>/\.replace\s*\(\s*['"`]\{.*\}['"`]/\<close>
        \<lparr> source = (Seq [Lit ''.replace'', ws, Lit ''('', ws, quo, Lit ''{'',
            Rep Dot Star, Lit ''}'', quo]), flags = '''' \<rparr>
      ],
      confidenceBase = 0.65 \<rparr>,
    \<lparr> id_str = ''ai-manual-inference-http'',
      domain = ''ai-model-serving'',
      description = ''Hand-rolled HTTP calls to model inference endpoints'',
      filePatterns = [''**/*.ts'', ''**/*.js'', ''**/*.py''],
      codePatterns = [
        \<comment> \<open>/fetch\s*\(\s*['"`].*(?:openai|anthropic|huggingface|inference)/i\<close>
        \<lparr> source = (Seq [Lit ''fetch'', ws, Lit ''('', ws, quo, Rep Dot Star,
            Alt [Lit ''openai'', Lit ''anthropic'', Lit ''huggingface'', Lit ''inference'']]),
            flags = ''i'' \<rparr>,
        \<comment> \<open>/axios\s*\.\s*post\s*\(\s*['"`].*(?:completions|chat|generate)/i\<close>
        \<lparr> source = (Seq [Lit ''axios'', ws, Lit ''.'', ws, Lit ''post'', ws, Lit ''('',
            ws, quo, Rep Dot Star, Alt [Lit ''completions'', Lit ''chat'', Lit ''generate'']]),
            flags = ''i'' \<rparr>,
        \<comment> \<open>/requests\s*\.\s*post\s*\(\s*['"`].*(?:v1\/|api\/)/i\<close>
        \<lparr> source = (Seq [Lit ''requests'', ws, Lit ''.'', ws, Lit ''post'', ws,
            Lit ''('', ws, quo, Rep Dot Star, Alt [Lit ''v1/'', Lit ''api/'']]),
            flags = ''i'' \<rparr>
      ],
      confidenceBase = 0.7 \<rparr>,
    \<lparr> id_str = ''payments-manual-integration'',
      domain = ''payments-billing'',
      description = ''Hand-rolled payment gateway HTTP integration'',
      filePatterns = [''**/*.ts'', ''**/*.js'', ''**/*.py''],
      codePatterns = [
        \<comment> \<open>/fetch\s*\(\s*['"`].*(?:stripe|paypal|checkout).*['"`]/i\<close>
        \<lparr> source = (Seq [Lit ''fetch'', ws, Lit ''('', ws, quo, Rep Dot Star,
            Alt [Lit ''stripe'', Lit ''paypal'', Lit ''checkout''], Rep Dot Star, quo]),
            flags = ''i'' \<rparr>,
        \<comment> \<open>/payment[_-]?intent/i\<close>
        \<lparr> source = (Seq [Lit ''payment'', Rep (Cls [Ch (CHR ''_''),
            Ch (CHR ''-'')]) Opt, Lit ''intent'']), flags = ''i'' \<rparr>,
        \<comment> \<open>/charge\s*\.\s*create/i\<close>
        \<lparr> source = (Seq [Lit ''charge'', ws, Lit ''.'', ws, Lit ''create'']),
            flags = ''i'' \<rparr>
      ],
      confidenceBase = 0.75 \<rparr>,
    \<lparr> id_str = ''ecommerce-manual-tax-calculation'',
      domain = ''cross-border-ecommerce'',
      description = ''Hand-rolled tax/VAT calculation logic'',
      filePatterns = [''**/*.ts'', ''**/*.js'', ''**/*.py''],
      codePatterns = [
        \<comment> \<open>/tax[_-]?rate\s*[=:]\s*0?\.\d+/i\<close>
        \<lparr> source = (Seq [Lit ''tax'', Rep (Cls [Ch (CHR ''_''), Ch (CHR ''-'')]) Opt,
            Lit ''rate'', ws, Cls [Ch (CHR ''=''), Ch (CHR '':'')], ws, Rep (Lit ''0'') Opt,
            Lit ''.'', Rep (Esc Digit) Plus]), flags = ''i'' \<rparr>,
        \<comment> \<open>/vat\s*[=:*]/i\<close>
        \<lparr> source = (Seq [Lit ''vat'', ws, Cls [Ch (CHR ''=''), Ch (CHR '':''),
            Ch (CHR ''*'')]]), flags = ''i'' \<rparr>,
        \<comment> \<open>/calculateTax\s*\(/i\<close>
        \<lparr> source = (Seq [Lit ''calculateTax'', ws, Lit ''('']), flags = ''i'' \<rparr>
      ],
      confidenceBase = 0.65 \<rparr>
  ]\<close>

definition getPatternsForDomain :: "string \<Rightarrow> PatternDefinition list" where
  "getPatternsForDomain d = filter (\<lambda>p. domain p = d) (getPatternCatalog ())"

subsection \<open>Match windows of a regular expression\<close>

text \<open>
  An "any characters" atom is the dot, a bracketed class that holds a class escape together
  with its complement (\<^verbatim>\<open>[\s\S]\<close>), or the empty negated class.
\<close>

fun any_character :: "regex \<Rightarrow> bool" where
  "any_character Dot = True"
| "any_character (Cls items) = (Space \<in> set items \<and> NonSpace \<in> set items)"
| "any_character (NCls items) = (items = [])"
| "any_character _ = False"

text \<open>The quantified "any characters" atoms of a regular expression, left to right.\<close>

fun wildcard_spans :: "regex \<Rightarrow> (regex \<times> quant) list" where
  "wildcard_spans (Rep a q) = (if any_character a then [(a, q)] else []) @ wildcard_spans a"
| "wildcard_spans (Seq rs) = concat (map wildcard_spans rs)"
| "wildcard_spans (Alt rs) = concat (map wildcard_spans rs)"
| "wildcard_spans _ = []"

fun upper_bound :: "quant \<Rightarrow> nat option" where
  "upper_bound Star = None"
| "upper_bound Plus = None"
| "upper_bound Opt = Some 1"
| "upper_bound (Exact n) = Some n"
| "upper_bound (Count n m) = Some m"

definition bounded_windows :: "regex \<Rightarrow> bool" where
  "bounded_windows r = list_all (\<lambda>(a, q). upper_bound q \<noteq> None) (wildcard_spans r)"

text \<open>
  What the catalog does hold of a span: a counted span is \<^verbatim>\<open>[\s\S]{0,m}\<close> with
  \<open>m \<le> 200\<close>, and a dot span is \<^verbatim>\<open>.*\<close> in an expression without the
  \<^verbatim>\<open>s\<close> flag.
\<close>

definition span_by_design :: "string \<Rightarrow> regex \<times> quant \<Rightarrow> bool" where
  "span_by_design fl = (\<lambda>(a, q).
     (case upper_bound q of None \<Rightarrow> True | Some m \<Rightarrow> a = anyCh \<and> q = Count 0 m \<and> m \<le> 200) \<and>
     (a = Dot \<longrightarrow> q = Star \<and> CHR ''s'' \<notin> set fl))"

definition all_regexps :: "RegExp list" where
  "all_regexps = concat (map codePatterns (getPatternCatalog ()))"

text \<open>
  The subsequence of a list of entries whose domain is \<open>d\<close>, written out by recursion on the
  list: the entries are visited front to back, one is kept exactly when its domain is
  \<open>d\<close>, and kept entries stay in their order. \<open>getPatternsForDomain\<close> is compared
  with it below.
\<close>

primrec entries_with_domain :: "string \<Rightarrow> PatternDefinition list \<Rightarrow> PatternDefinition list" where
  "entries_with_domain d [] = []"
| "entries_with_domain d (p # ps) =
     (if domain p = d then p # entries_with_domain d ps else entries_with_domain d ps)"

section \<open>Matching a regular expression\<close>

text \<open>
  The scanner applies a catalog expression to the content of a file with
  \<^verbatim>\<open>RegExp.prototype.exec\<close>. What follows is the ECMAScript matching semantics for the
  constructs of the catalog, on 8-bit characters: the set of positions at which a match of an
  expression that starts at a given position can end. The existence of a match and the
  leftmost position where one starts do not depend on the order in which a backtracking
  matcher tries the alternatives, which is why sets of end positions are enough. A
  position is the character before it, if any, and the rest of the input.
\<close>

type_synonym pos = "char option \<times> string"

definition is_space :: "char \<Rightarrow> bool" where
  "is_space x \<longleftrightarrow> x \<in> set [CHR '' '', CHR 0x09, CHR 0x0A, CHR 0x0B, CHR 0x0C, CHR 0x0D]"

definition is_digit :: "char \<Rightarrow> bool" where
  "is_digit x \<longleftrightarrow> CHR ''0'' \<le> x \<and> x \<le> CHR ''9''"

definition is_word :: "char \<Rightarrow> bool" where
  "is_word x \<longleftrightarrow>
     (CHR ''a'' \<le> x \<and> x \<le> CHR ''z'') \<or> (CHR ''A'' \<le> x \<and> x \<le> CHR ''Z'') \<or> is_digit x \<or> x = CHR ''_''"

definition line_terminator :: "char \<Rightarrow> bool" where
  "line_terminator x \<longleftrightarrow> x = CHR 0x0A \<or> x = CHR 0x0D"

text \<open>\<^verbatim>\<open>Canonicalize\<close>: with the \<^verbatim>\<open>i\<close> flag a letter is compared in upper case.\<close>

definition canonicalize :: "bool \<Rightarrow> char \<Rightarrow> char" where
  "canonicalize ic x =
     (if ic then
        (case map_of (zip ''abcdefghijklmnopqrstuvwxyz'' ''ABCDEFGHIJKLMNOPQRSTUVWXYZ'') x of
           Some y \<Rightarrow> y | None \<Rightarrow> x)
      else x)"

fun in_atom :: "cls_atom \<Rightarrow> char \<Rightarrow> bool" where
  "in_atom (Ch c) x = (x = c)"
| "in_atom (Rng a b) x = (a \<le> x \<and> x \<le> b)"
| "in_atom Space x = is_space x"
| "in_atom NonSpace x = (\<not> is_space x)"
| "in_atom WordCh x = is_word x"
| "in_atom Digit x = is_digit x"

text \<open>
  With the \<^verbatim>\<open>i\<close> flag a class holds a character when it holds some character of the same
  canonical form; for a range these are the letters of the range in either case.
\<close>

fun atom_test :: "bool \<Rightarrow> cls_atom \<Rightarrow> char \<Rightarrow> bool" where
  "atom_test ic (Ch c) x = (canonicalize ic x = canonicalize ic c)"
| "atom_test ic (Rng a b) x =
     (in_atom (Rng a b) x \<or>
      (ic \<and> list_ex (\<lambda>y. canonicalize ic y = canonicalize ic x)
              (filter (in_atom (Rng a b)) (''abcdefghijklmnopqrstuvwxyz'' @ ''ABCDEFGHIJKLMNOPQRSTUVWXYZ''))))"
| "atom_test ic a x = in_atom a x"

fun step_char :: "(char \<Rightarrow> bool) \<Rightarrow> pos \<Rightarrow> pos list" where
  "step_char t (p, []) = []"
| "step_char t (p, c # cs) = (if t c then [(Some c, cs)] else [])"

fun lit :: "bool \<Rightarrow> string \<Rightarrow> pos \<Rightarrow> pos list" where
  "lit ic [] q = [q]"
| "lit ic (x # xs) (p, []) = []"
| "lit ic (x # xs) (p, c # cs) =
     (if canonicalize ic c = canonicalize ic x then lit ic xs (Some c, cs) else [])"

definition at_word_boundary :: "pos \<Rightarrow> bool" where
  "at_word_boundary q =
     ((case fst q of None \<Rightarrow> False | Some c \<Rightarrow> is_word c) \<noteq>
      (case snd q of [] \<Rightarrow> False | c # cs \<Rightarrow> is_word c))"

fun quant_min :: "quant \<Rightarrow> nat" where
  "quant_min Star = 0"
| "quant_min Plus = 1"
| "quant_min Opt = 0"
| "quant_min (Exact n) = n"
| "quant_min (Count n m) = n"

text \<open>
  \<open>repeat f lo h P\<close>: the positions reached from the positions \<open>P\<close> by \<open>lo\<close> more
  required and at most \<open>h\<close> more iterations of \<open>f\<close>.
\<close>

fun repeat :: "(pos \<Rightarrow> pos list) \<Rightarrow> nat \<Rightarrow> nat \<Rightarrow> pos list \<Rightarrow> pos list" where
  "repeat f lo 0 P = (if lo = 0 then P else [])"
| "repeat f lo (Suc h) P =
     (if P = [] then []
      else (if lo = 0 then P else []) @ repeat f (lo - 1) h (concat (map f P)))"

text \<open>
  An unbounded quantifier needs no more iterations than its minimum plus the number of
  characters left: an iteration that consumes nothing reaches no new position.
\<close>

fun ends :: "bool \<Rightarrow> regex \<Rightarrow> pos \<Rightarrow> pos list" where
  "ends ic (Lit s) q = lit ic s q"
| "ends ic Dot q = step_char (\<lambda>c. \<not> line_terminator c) q"
| "ends ic (Esc a) q = step_char (atom_test ic a) q"
| "ends ic (Cls as) q = step_char (\<lambda>c. list_ex (\<lambda>a. atom_test ic a c) as) q"
| "ends ic (NCls as) q = step_char (\<lambda>c. \<not> list_ex (\<lambda>a. atom_test ic a c) as) q"
| "ends ic WordB q = (if at_word_boundary q then [q] else [])"
| "ends ic (Seq rs) q = foldl (\<lambda>P r. concat (map (ends ic r) P)) [q] rs"
| "ends ic (Alt rs) q = concat (map (\<lambda>r. ends ic r q) rs)"
| "ends ic (Rep r k) q =
     repeat (ends ic r) (quant_min k)
       (case upper_bound k of None \<Rightarrow> quant_min k + length (snd q) | Some m \<Rightarrow> m) [q]"

text \<open>The offset of the leftmost position at which a match starts.\<close>

fun search_from :: "bool \<Rightarrow> regex \<Rightarrow> char option \<Rightarrow> string \<Rightarrow> nat \<Rightarrow> nat option" where
  "search_from ic r prev [] off = (if ends ic r (prev, []) \<noteq> [] then Some off else None)"
| "search_from ic r prev (c # cs) off =
     (if ends ic r (prev, c # cs) \<noteq> [] then Some off else search_from ic r (Some c) cs (Suc off))"

definition regex_search :: "RegExp \<Rightarrow> string \<Rightarrow> nat option" where
  "regex_search re text = search_from (CHR ''i'' \<in> set (flags re)) (source re) None text 0"

text \<open>The two import lines of the tests.\<close>

definition deep_import :: string where
  "deep_import = ''import { config } from '' @ [CHR 0x27] @ ''../../../config/app'' @ [CHR 0x27]"

definition shallow_import :: string where
  "shallow_import = ''import { theme } from '' @ [CHR 0x27] @ ''../theme'' @ [CHR 0x27]"

section \<open>The verification client\<close>

text \<open>
  The code that follows the catalog in \<^verbatim>\<open>pattern-catalog.ts\<close> verifies library
  recommendations against an external documentation service. The field \<^verbatim>\<open>note\<close> is \<open>note_text\<close> here (\<open>note\<close>
  is a keyword of Isar), and the \<^verbatim>\<open>version\<close> of a documentation record is
  \<open>docs_version\<close>, the result record having its own \<open>version\<close>. An absent optional field
  is \<open>None\<close>.
\<close>

datatype status = Verified | Unverified | Unavailable

record VerificationResult =
  status :: status
  libraryId :: "string option"
  documentationUrl :: "string option"
  version :: "string option"
  note_text :: "string option"

record LibraryDocs =
  url :: string
  docs_version :: string

text \<open>
  A client is an object of the caller: its two methods may answer differently from one call
  to the next (a mock that rejects twice and then resolves, a rate limiter). A method is
  therefore a function of the client's state \<open>'s\<close> that returns the new state; it either
  throws a value of type \<open>'e\<close> (\<open>Inl\<close>) or returns (\<open>Inr\<close>), where \<^verbatim>\<open>null\<close> is
  \<open>None\<close>.
\<close>

record ('s, 'e) Context7Client =
  resolveLibraryId :: "string \<Rightarrow> string \<Rightarrow> 's \<Rightarrow> ('e + string option) \<times> 's"
  getLibraryDocs :: "string \<Rightarrow> string \<Rightarrow> 's \<Rightarrow> ('e + LibraryDocs option) \<times> 's"

text \<open>
  The effects of the module are the calls to the client and the calls to \<^verbatim>\<open>sleep\<close>. The
  world holds the client's state and the sequence of effects performed so far.
\<close>

datatype event = ResolveCall string string | DocsCall string string | Sleep nat

record 's world =
  client_state :: 's
  trace :: "event list"

definition MAX_RETRIES :: nat where "MAX_RETRIES = 3"
definition BASE_DELAY_MS :: nat where "BASE_DELAY_MS = 1000"

definition sleep :: "nat \<Rightarrow> 's world \<Rightarrow> 's world" where
  "sleep ms w = w\<lparr>trace := trace w @ [Sleep ms]\<rparr>"

text \<open>Awaiting a method of the client: the client answers, and the call is recorded.\<close>

definition external_call :: "event \<Rightarrow> ('s \<Rightarrow> 'r \<times> 's) \<Rightarrow> 's world \<Rightarrow> 'r \<times> 's world" where
  "external_call ev f w =
     (case f (client_state w) of (r, s') \<Rightarrow> (r, \<lparr>client_state = s', trace = trace w @ [ev]\<rparr>))"

definition call_resolve ::
  "('s, 'e) Context7Client \<Rightarrow> string \<Rightarrow> string \<Rightarrow> 's world \<Rightarrow> ('e + string option) \<times> 's world" where
  "call_resolve client libraryName query =
     external_call (ResolveCall libraryName query) (resolveLibraryId client libraryName query)"

definition call_docs ::
  "('s, 'e) Context7Client \<Rightarrow> string \<Rightarrow> string \<Rightarrow> 's world \<Rightarrow> ('e + LibraryDocs option) \<times> 's world" where
  "call_docs client lid query =
     external_call (DocsCall lid query) (getLibraryDocs client lid query)"

text \<open>
  \<^verbatim>\<open>retryWithBackoff\<close>: the \<^verbatim>\<open>for\<close> loop over \<open>attempt\<close>, with \<open>lastError\<close>
  undefined (\<open>None\<close>) before the first failure. Leaving the loop throws
  \<open>lastError\<close>.
\<close>

function retryWithBackoff_loop ::
  "('s world \<Rightarrow> ('e + 'a) \<times> 's world) \<Rightarrow> nat \<Rightarrow> 'e option \<Rightarrow> 's world \<Rightarrow> ('e option + 'a) \<times> 's world" where
  "retryWithBackoff_loop fn attempt lastError w =
     (if attempt < MAX_RETRIES then
        (case fn w of
           (Inr v, w') \<Rightarrow> (Inr v, w')
         | (Inl err, w') \<Rightarrow>
             retryWithBackoff_loop fn (attempt + 1) (Some err)
               (if attempt < MAX_RETRIES - 1 then sleep (BASE_DELAY_MS * 2 ^ attempt) w' else w'))
      else (Inl lastError, w))"
  by pat_completeness auto
termination
  by (relation "measure (\<lambda>(fn, attempt, lastError, w). MAX_RETRIES - attempt)") auto

declare retryWithBackoff_loop.simps [simp del]

definition retryWithBackoff ::
  "('s world \<Rightarrow> ('e + 'a) \<times> 's world) \<Rightarrow> 's world \<Rightarrow> ('e option + 'a) \<times> 's world" where
  "retryWithBackoff fn w = retryWithBackoff_loop fn 0 None w"

text \<open>The decimal text of a number, as a template literal renders \<^verbatim>\<open>${MAX_RETRIES}\<close>.\<close>

definition digit_char :: "nat \<Rightarrow> char" where
  "digit_char n = ''0123456789'' ! n"

function show_nat :: "nat \<Rightarrow> string" where
  "show_nat n = (if n < 10 then [digit_char n] else show_nat (n div 10) @ [digit_char (n mod 10)])"
  by pat_completeness auto
termination
  by (relation "measure id") auto

declare show_nat.simps [simp del]

text \<open>
  \<^verbatim>\<open>verifyRecommendation\<close>: both \<^verbatim>\<open>try\<close> blocks catch whatever
  \<^verbatim>\<open>retryWithBackoff\<close> throws, so the function has no throwing branch of its own.
\<close>

definition verifyRecommendation ::
  "('s, 'e) Context7Client \<Rightarrow> string \<Rightarrow> string \<Rightarrow> 's world \<Rightarrow> VerificationResult \<times> 's world" where
  \<open>verifyRecommendation client libraryName useCase w =
     (case retryWithBackoff (call_resolve client libraryName useCase) w of
        (Inl _, w1) \<Rightarrow>
          (\<lparr>status = Unavailable, libraryId = None, documentationUrl = None, version = None,
            note_text = Some (''Context7 service error resolving library "'' @ libraryName @
                         ''" after '' @ show_nat MAX_RETRIES @ '' retries'')\<rparr>, w1)
      | (Inr None, w1) \<Rightarrow>
          (\<lparr>status = Unverified, libraryId = None, documentationUrl = None, version = None,
            note_text = Some (''Library "'' @ libraryName @ ''" not found in Context7'')\<rparr>, w1)
      | (Inr (Some lid), w1) \<Rightarrow>
          (case retryWithBackoff (call_docs client lid useCase) w1 of
             (Inl _, w2) \<Rightarrow>
               (\<lparr>status = Unavailable, libraryId = Some lid, documentationUrl = None,
                 version = None,
                 note_text = Some (''Context7 service error fetching docs for "'' @ libraryName @
                              ''" after '' @ show_nat MAX_RETRIES @ '' retries'')\<rparr>, w2)
           | (Inr None, w2) \<Rightarrow>
               (\<lparr>status = Unverified, libraryId = Some lid, documentationUrl = None,
                 version = None,
                 note_text = Some (''Documentation for "'' @ libraryName @
                              ''" does not confirm use case "'' @ useCase @ ''"'')\<rparr>, w2)
           | (Inr (Some docs), w2) \<Rightarrow>
               (\<lparr>status = Verified, libraryId = Some lid, documentationUrl = Some (url docs),
                 version = Some (docs_version docs), note_text = None\<rparr>, w2)))\<close>

text \<open>
  \<^verbatim>\<open>verifyAllRecommendations\<close>: the loop over the indices of \<open>items\<close>; a
  \<^verbatim>\<open>null\<close> item is \<open>None\<close>, and the \<^verbatim>\<open>Map\<close> of results is a map from indices.
\<close>

record VerificationItem =
  libraryName :: string
  useCase :: string

function verifyAll_loop ::
  "('s, 'e) Context7Client \<Rightarrow> VerificationItem option list \<Rightarrow> nat \<Rightarrow>
   (nat \<rightharpoonup> VerificationResult) \<Rightarrow> 's world \<Rightarrow> (nat \<rightharpoonup> VerificationResult) \<times> 's world" where
  "verifyAll_loop client items i results w =
     (if i < length items then
        (case items ! i of
           None \<Rightarrow> verifyAll_loop client items (i + 1) results w
         | Some item \<Rightarrow>
             (case verifyRecommendation client (libraryName item) (useCase item) w of
                (result, w') \<Rightarrow> verifyAll_loop client items (i + 1) (results(i \<mapsto> result)) w'))
      else (results, w))"
  by pat_completeness auto
termination
  by (relation "measure (\<lambda>(client, items, i, results, w). length items - i)") auto

declare verifyAll_loop.simps [simp del]

definition verifyAllRecommendations ::
  "('s, 'e) Context7Client \<Rightarrow> VerificationItem option list \<Rightarrow> 's world \<Rightarrow>
   (nat \<rightharpoonup> VerificationResult) \<times> 's world" where
  "verifyAllRecommendations client items w = verifyAll_loop client items 0 Map.empty w"

subsection \<open>What the retry policy is compared with\<close>

text \<open>
  The answer a method gives within at most \<open>n\<close> successive calls: the first result that
  is not a throw, or \<open>None\<close> when every call throws.
\<close>

fun first_answer :: "('s \<Rightarrow> ('e + 'a) \<times> 's) \<Rightarrow> nat \<Rightarrow> 's \<Rightarrow> 'a option \<times> 's" where
  "first_answer f 0 s = (None, s)"
| "first_answer f (Suc n) s =
     (case f s of (Inr v, s') \<Rightarrow> (Some v, s') | (Inl e, s') \<Rightarrow> first_answer f n s')"

text \<open>The verification result as a function of those answers alone.\<close>

definition answers ::
  "('s, 'e) Context7Client \<Rightarrow> string \<Rightarrow> string \<Rightarrow> 's \<Rightarrow> VerificationResult" where
  \<open>answers client name uc s =
     (case first_answer (resolveLibraryId client name uc) MAX_RETRIES s of
        (None, s1) \<Rightarrow>
          \<lparr>status = Unavailable, libraryId = None, documentationUrl = None, version = None,
           note_text = Some (''Context7 service error resolving library "'' @ name @
                        ''" after 3 retries'')\<rparr>
      | (Some None, s1) \<Rightarrow>
          \<lparr>status = Unverified, libraryId = None, documentationUrl = None, version = None,
           note_text = Some (''Library "'' @ name @ ''" not found in Context7'')\<rparr>
      | (Some (Some lid), s1) \<Rightarrow>
          (case fst (first_answer (getLibraryDocs client lid uc) MAX_RETRIES s1) of
             None \<Rightarrow>
               \<lparr>status = Unavailable, libraryId = Some lid, documentationUrl = None,
                version = None,
                note_text = Some (''Context7 service error fetching docs for "'' @ name @
                             ''" after 3 retries'')\<rparr>
           | Some None \<Rightarrow>
               \<lparr>status = Unverified, libraryId = Some lid, documentationUrl = None,
                version = None,
                note_text = Some (''Documentation for "'' @ name @
                             ''" does not confirm use case "'' @ uc @ ''"'')\<rparr>
           | Some (Some docs) \<Rightarrow>
               \<lparr>status = Verified, libraryId = Some lid, documentationUrl = Some (url docs),
                version = Some (docs_version docs), note_text = None\<rparr>))\<close>

text \<open>A client whose methods leave its state as it was.\<close>

definition stateless :: "('s, 'e) Context7Client \<Rightarrow> bool" where
  "stateless client \<longleftrightarrow>
     (\<forall>n q s. snd (resolveLibraryId client n q s) = s) \<and>
     (\<forall>l q s. snd (getLibraryDocs client l q s) = s)"

text \<open>
  The effects one retried call \<open>c\<close> may leave: one, two or three attempts, with a pause of
  1000 ms after the first failure and of 2000 ms after the second.
\<close>

definition retry_schedule :: "event \<Rightarrow> event list list" where
  "retry_schedule c = [[c], [c, Sleep 1000, c], [c, Sleep 1000, c, Sleep 2000, c]]"

text \<open>Clients and inputs for the examples.\<close>

definition flaky_client :: "(nat, string) Context7Client" where
  "flaky_client =
     \<lparr>resolveLibraryId =
        (\<lambda>n q k. (if k < 2 then Inl ''429'' else Inr (Some ''/colinhacks/zod''), k + 1)),
      getLibraryDocs =
        (\<lambda>l q k. (Inr (Some \<lparr>url = ''https://zod.dev'', docs_version = ''3.23.8''\<rparr>), k + 1))\<rparr>"

definition failing_client :: "(nat, string) Context7Client" where
  "failing_client =
     \<lparr>resolveLibraryId = (\<lambda>n q k. (Inl ''503'', k + 1)),
      getLibraryDocs = (\<lambda>l q k. (Inr None, k + 1))\<rparr>"

definition unknown_client :: "(nat, string) Context7Client" where
  "unknown_client =
     \<lparr>resolveLibraryId = (\<lambda>n q k. (Inr None, k + 1)),
      getLibraryDocs = (\<lambda>l q k. (Inl ''not reached'', k + 1))\<rparr>"

definition fixed_client :: "(unit, string) Context7Client" where
  "fixed_client =
     \<lparr>resolveLibraryId =
        (\<lambda>n q s. (if n = ''zod'' then Inr (Some ''/colinhacks/zod'')
                   else if n = ''left-pad'' then Inl ''503'' else Inr None, s)),
      getLibraryDocs =
        (\<lambda>l q s. (Inr (Some \<lparr>url = ''https://zod.dev'', docs_version = ''3.23.8''\<rparr>), s))\<rparr>"

definition w0 :: "nat world" where
  "w0 = \<lparr>client_state = 0, trace = []\<rparr>"

definition u0 :: "unit world" where
  "u0 = \<lparr>client_state = (), trace = []\<rparr>"

definition three_items :: "VerificationItem option list" where
  "three_items =
     [Some \<lparr>libraryName = ''left-pad'', useCase = ''padding''\<rparr>, None,
      Some \<lparr>libraryName = ''zod'', useCase = ''validation''\<rparr>]"

section \<open>The scanner and the code-organization analyzer\<close>

text \<open>
  Modelled from the spec: the scan orchestrator (\<^verbatim>\<open>scanCodebase\<close> of
  \<^verbatim>\<open>src/analyzer/scanner.ts\<close>) and the code-organization analyzer
  (\<^verbatim>\<open>analyzeCodeOrganization\<close> of \<^verbatim>\<open>src/analyzer/code-organization-analyzer.ts\<close>), with
  the workspace resolver, the file walker, the pattern matching engine, the dependency graph
  and the cycle detector they are built from. None of these files is among the sources; the
  definitions of this section follow sections 3, 4, 6 and 7 of the specification, and the
  tests for the shape of the inputs.
\<close>

subsection \<open>Data\<close>

text \<open>
  Modelled from the spec: the file system under the scan root, as a tree. A scan root that
  does not exist is \<open>None\<close>.
\<close>

datatype fs_entry = File string string | Dir string "fs_entry list"

text \<open>
  Modelled from the spec: the configuration of section 6 (ignore-directory set,
  source-extension allow-list), the directories of the skip rule of section 4.7 and the
  names of package manifests.
\<close>

record config =
  ignoreDirs :: "string list"
  sourceExtensions :: "string list"
  skipDirs :: "string list"
  manifestNames :: "string list"

text \<open>Modelled from the spec: a candidate file of the walker, with its depth below the scan root.\<close>

record source_file =
  path :: string
  depth :: nat
  content :: string

text \<open>
  Modelled from the spec: the entities of section 3. The fields \<^verbatim>\<open>root\<close>, \<^verbatim>\<open>type\<close>,
  \<^verbatim>\<open>domain\<close> and \<^verbatim>\<open>description\<close> carry a prefix here, their names being taken.
\<close>

record Workspace =
  ws_root :: string
  language :: string
  packageManager :: string
  dependencies :: "(string \<times> string) list"

record lineRange =
  range_start :: nat
  range_end :: nat

record Detection =
  filePath :: string
  lineRange :: lineRange
  patternCategory :: string
  confidenceScore :: real
  detection_domain :: string

datatype finding_type =
  GodDirectory | MixedNamingConvention | DeepNesting | BarrelBloat | CatchAllDirectory
  | CircularDependency | HardcodedConfigValues | MissingLayer

datatype severity = Warning | Critical

record StructuralFinding =
  finding_type :: finding_type
  finding_domain :: string
  severity :: severity
  paths :: "string list"
  finding_description :: string
  metadata :: "(string \<times> string) list"

record CodeOrganizationStats =
  totalSourceFiles :: nat
  maxDirectoryDepth :: nat
  circularDependencyCount :: nat
  namingConventions :: "(string \<times> nat) list"

record ScanResult =
  detections :: "Detection list"
  structuralFindings :: "StructuralFinding list option"
  codeOrganizationStats :: CodeOrganizationStats
  workspaces :: "Workspace list"

text \<open>
  Modelled from the spec: what the specification names without defining, taken as
  parameters. These are the glob matcher of \<^verbatim>\<open>filePatterns\<close>, the reading of a package
  manifest (\<open>None\<close> for a manifest that fails to parse), the extraction and resolution of the
  relative imports of a file, the classification of a file name into a naming convention,
  the marker of auto-generated files, and the design-system analysis of a monorepo.
\<close>

record collaborators =
  glob_match :: "string \<Rightarrow> string \<Rightarrow> bool"
  read_manifest :: "string \<Rightarrow> string \<Rightarrow> fs_entry list \<Rightarrow> Workspace option"
  resolve_imports :: "source_file list \<Rightarrow> source_file \<Rightarrow> string list"
  classify_name :: "string \<Rightarrow> string"
  is_generated :: "source_file \<Rightarrow> bool"
  design_system_findings :: "Workspace list \<Rightarrow> source_file list \<Rightarrow> StructuralFinding list"

subsection \<open>Paths\<close>

text \<open>Modelled from the spec: relative paths with forward slashes.\<close>

definition join_path :: "string \<Rightarrow> string \<Rightarrow> string" where
  "join_path dir name = (if dir = [] then name else dir @ ''/'' @ name)"

definition dirname :: "string \<Rightarrow> string" where
  "dirname p =
     (case dropWhile (\<lambda>c. c \<noteq> CHR ''/'') (rev p) of
        [] \<Rightarrow> ''.''
      | _ # r \<Rightarrow> rev r)"

definition has_extension :: "string list \<Rightarrow> string \<Rightarrow> bool" where
  "has_extension exts name = list_ex (\<lambda>e. suffix e name) exts"

fun segments :: "string \<Rightarrow> string \<Rightarrow> string list" where
  "segments cur [] = [cur]"
| "segments cur (c # cs) = (if c = CHR ''/'' then cur # segments [] cs else segments (cur @ [c]) cs)"

definition basename_no_ext :: "string \<Rightarrow> string" where
  "basename_no_ext p = takeWhile (\<lambda>c. c \<noteq> CHR ''.'') (last (segments [] p))"

subsection \<open>File walker\<close>

text \<open>
  Modelled from the spec: the file walker of section 4.3. It yields the files with an
  extension of the allow-list, never descends into an ignored directory, keeps the order of
  the directory listing, and yields nothing for a missing root.
\<close>

fun walk :: "config \<Rightarrow> string \<Rightarrow> nat \<Rightarrow> fs_entry \<Rightarrow> source_file list" where
  "walk cfg dir d (File name text) =
     (if has_extension (sourceExtensions cfg) name
      then [\<lparr>path = join_path dir name, depth = d, content = text\<rparr>] else [])"
| "walk cfg dir d (Dir name entries) =
     (if name \<in> set (ignoreDirs cfg) then []
      else concat (map (walk cfg (join_path dir name) (Suc d)) entries))"

definition walk_root :: "config \<Rightarrow> fs_entry list option \<Rightarrow> source_file list" where
  "walk_root cfg tree =
     (case tree of None \<Rightarrow> [] | Some entries \<Rightarrow> concat (map (walk cfg [] 0) entries))"

subsection \<open>Workspace resolver\<close>

text \<open>
  Modelled from the spec: the workspace resolver of section 4.2. Every directory that holds
  a manifest is a workspace root, the top level (\<^verbatim>\<open>.\<close>) first; ignored directories are
  not searched, a manifest that fails to parse is passed over, and a missing root gives the
  empty list.
\<close>

definition manifests_here ::
  "config \<Rightarrow> collaborators \<Rightarrow> string \<Rightarrow> fs_entry list \<Rightarrow> Workspace list" where
  "manifests_here cfg co dir entries =
     List.map_filter
       (\<lambda>e. case e of
               File name text \<Rightarrow>
                 if name \<in> set (manifestNames cfg) then read_manifest co dir name entries else None
             | Dir name sub \<Rightarrow> None)
       entries"

fun nested_workspaces :: "config \<Rightarrow> collaborators \<Rightarrow> string \<Rightarrow> fs_entry \<Rightarrow> Workspace list" where
  "nested_workspaces cfg co dir (File name text) = []"
| "nested_workspaces cfg co dir (Dir name entries) =
     (if name \<in> set (ignoreDirs cfg) then []
      else manifests_here cfg co (join_path dir name) entries @
           concat (map (nested_workspaces cfg co (join_path dir name)) entries))"

definition resolve_workspaces ::
  "config \<Rightarrow> collaborators \<Rightarrow> fs_entry list option \<Rightarrow> Workspace list" where
  "resolve_workspaces cfg co tree =
     (case tree of
        None \<Rightarrow> []
      | Some entries \<Rightarrow>
          manifests_here cfg co ''.'' entries @ concat (map (nested_workspaces cfg co []) entries))"

subsection \<open>Pattern matching engine\<close>

text \<open>
  Modelled from the spec: the pattern matching engine of section 4.4. A pattern applies to a
  file whose path matches one of its \<^verbatim>\<open>filePatterns\<close>; the first expression that matches
  gives the one detection of the pair, on the line of the match start, with the base
  confidence of the pattern. The detections are sorted by path, line and category.
\<close>

definition line_of_offset :: "string \<Rightarrow> nat \<Rightarrow> nat" where
  "line_of_offset text off = Suc (length (filter (\<lambda>c. c = CHR 0x0A) (take off text)))"

fun first_match :: "RegExp list \<Rightarrow> string \<Rightarrow> nat option" where
  "first_match [] text = None"
| "first_match (re # res) text =
     (case regex_search re text of Some off \<Rightarrow> Some off | None \<Rightarrow> first_match res text)"

definition detect :: "collaborators \<Rightarrow> source_file \<Rightarrow> PatternDefinition \<Rightarrow> Detection option" where
  "detect co f p =
     (if list_ex (\<lambda>g. glob_match co g (path f)) (filePatterns p)
      then map_option
             (\<lambda>off. \<lparr>filePath = path f,
                     lineRange = \<lparr>range_start = line_of_offset (content f) off,
                                  range_end = line_of_offset (content f) off\<rparr>,
                     patternCategory = id_str p, confidenceScore = confidenceBase p,
                     detection_domain = domain p\<rparr>)
             (first_match (codePatterns p) (content f))
      else None)"

definition detection_key :: "Detection \<Rightarrow> string \<times> nat \<times> string" where
  "detection_key d = (filePath d, range_start (lineRange d), patternCategory d)"

definition match_files ::
  "collaborators \<Rightarrow> PatternDefinition list \<Rightarrow> source_file list \<Rightarrow> Detection list" where
  "match_files co catalog files =
     sort_key detection_key
       (concat (map (\<lambda>f. List.map_filter (detect co f) catalog) files))"

subsection \<open>Cycle detector\<close>

text \<open>
  Modelled from the spec: the dependency graph of section 4.5, a list of nodes with their
  resolved import targets in order, and the cycle detector of section 4.6. The search is
  depth-first with an explicit stack of frames, a frame being a node with the targets it
  has still to follow. A node is unvisited while it is in the list \<open>unvisited\<close>, on the
  stack while a frame holds it, and finished afterwards. An edge to a node on the stack
  closes a cycle, which is read off the stack from that node up to the current one.
\<close>

type_synonym 'a graph = "('a \<times> 'a list) list"

type_synonym 'a frame = "'a \<times> 'a list"

datatype colour = Unvisited | OnStack | Finished

definition nodes :: "'a graph \<Rightarrow> 'a list" where
  "nodes g = map fst g"

definition succs :: "'a graph \<Rightarrow> 'a \<Rightarrow> 'a list" where
  "succs g u = (case map_of g u of None \<Rightarrow> [] | Some vs \<Rightarrow> vs)"

definition colour_of :: "'a list \<Rightarrow> 'a frame list \<Rightarrow> 'a \<Rightarrow> colour" where
  "colour_of unvisited stack v =
     (if v \<in> set unvisited then Unvisited
      else if v \<in> set (map fst stack) then OnStack else Finished)"

definition cycle_through :: "'a \<Rightarrow> 'a frame list \<Rightarrow> 'a list" where
  "cycle_through v stack = v # rev (takeWhile (\<lambda>u. u \<noteq> v) (map fst stack))"

definition stack_weight :: "'a frame list \<Rightarrow> nat" where
  "stack_weight stack = sum_list (map (\<lambda>(u, vs). Suc (length vs)) stack)"

function dfs_loop ::
  "'a graph \<Rightarrow> 'a list \<Rightarrow> 'a frame list \<Rightarrow> 'a list list \<Rightarrow> 'a list \<times> 'a list list" where
  "dfs_loop g unvisited [] found = (unvisited, found)"
| "dfs_loop g unvisited ((u, []) # stack) found = dfs_loop g unvisited stack found"
| "dfs_loop g unvisited ((u, v # vs) # stack) found =
     (case colour_of unvisited ((u, vs) # stack) v of
        Unvisited \<Rightarrow> dfs_loop g (removeAll v unvisited) ((v, succs g v) # (u, vs) # stack) found
      | OnStack \<Rightarrow> dfs_loop g unvisited ((u, vs) # stack) (found @ [cycle_through v ((u, vs) # stack)])
      | Finished \<Rightarrow> dfs_loop g unvisited ((u, vs) # stack) found)"
  by pat_completeness auto
termination
proof (relation "measures [\<lambda>(g, unvisited, stack, found). length unvisited,
                           \<lambda>(g, unvisited, stack, found). stack_weight stack]")
  show "wf (measures [\<lambda>(g, unvisited, stack, found). length unvisited,
                      \<lambda>(g, unvisited, stack, found). stack_weight stack])"
    by simp
qed (auto simp add: stack_weight_def colour_of_def length_removeAll_less split: if_splits)

fun dfs_all :: "'a graph \<Rightarrow> 'a list \<Rightarrow> 'a list \<Rightarrow> 'a list list \<Rightarrow> 'a list list" where
  "dfs_all g [] unvisited found = found"
| "dfs_all g (n # ns) unvisited found =
     (if n \<in> set unvisited
      then (case dfs_loop g (removeAll n unvisited) [(n, succs g n)] found of
              (unvisited', found') \<Rightarrow> dfs_all g ns unvisited' found')
      else dfs_all g ns unvisited found)"

text \<open>
  Modelled from the spec: a cycle is normalised by rotating it to start at its smallest
  node, and a normalised cycle is reported once.
\<close>

definition least_node :: "'a::linorder list \<Rightarrow> 'a" where
  "least_node c = fold min (tl c) (hd c)"

definition normalize_cycle :: "'a::linorder list \<Rightarrow> 'a list" where
  "normalize_cycle c =
     (if c = [] then []
      else dropWhile (\<lambda>u. u \<noteq> least_node c) c @ takeWhile (\<lambda>u. u \<noteq> least_node c) c)"

fun dedupe :: "'a list \<Rightarrow> 'a list \<Rightarrow> 'a list" where
  "dedupe seen [] = seen"
| "dedupe seen (x # xs) = (if x \<in> set seen then dedupe seen xs else dedupe (seen @ [x]) xs)"

definition report_cycles :: "'a::linorder list list \<Rightarrow> 'a list list" where
  "report_cycles raw = dedupe [] (map normalize_cycle raw)"

definition detect_cycles :: "'a::linorder graph \<Rightarrow> 'a list list" where
  "detect_cycles g = report_cycles (dfs_all g (nodes g) (nodes g) [])"

subsection \<open>Code-organization analyzer\<close>

text \<open>
  Modelled from the spec: the skip rule of section 4.7. A file under a directory of the
  skip list, or marked as generated, takes no part in the structural analysis.
\<close>

definition skipped :: "config \<Rightarrow> collaborators \<Rightarrow> source_file \<Rightarrow> bool" where
  "skipped cfg co f \<longleftrightarrow>
     list_ex (\<lambda>s. s \<in> set (skipDirs cfg)) (butlast (segments [] (path f))) \<or> is_generated co f"

definition analysed_files :: "config \<Rightarrow> collaborators \<Rightarrow> source_file list \<Rightarrow> source_file list" where
  "analysed_files cfg co files = filter (\<lambda>f. \<not> skipped cfg co f) files"

text \<open>Modelled from the spec: counting per key, the keys in the order of their first occurrence.\<close>

fun bump :: "'k \<Rightarrow> ('k \<times> nat) list \<Rightarrow> ('k \<times> nat) list" where
  "bump k [] = [(k, 1)]"
| "bump k ((k', n) # rest) = (if k = k' then (k', Suc n) # rest else (k', n) # bump k rest)"

definition tally :: "'k list \<Rightarrow> ('k \<times> nat) list" where
  "tally ks = foldl (\<lambda>acc k. bump k acc) [] ks"

text \<open>
  Modelled from the spec: the god-directory rule of section 4.7. A directory whose immediate
  count of source files is above 15 is a warning, above 30 critical.
\<close>

definition god_directory_severity :: "nat \<Rightarrow> severity option" where
  "god_directory_severity n =
     (if n > 30 then Some Critical else if n > 15 then Some Warning else None)"

definition god_directory_finding :: "string \<times> nat \<Rightarrow> StructuralFinding option" where
  "god_directory_finding = (\<lambda>(dir, n).
     map_option
       (\<lambda>sev. \<lparr>finding_type = GodDirectory, finding_domain = ''code-organization'',
               severity = sev, paths = [dir],
               finding_description = ''Directory has too many source files'',
               metadata = [(''fileCount'', show_nat n)]\<rparr>)
       (god_directory_severity n))"

definition god_directory_findings :: "source_file list \<Rightarrow> StructuralFinding list" where
  "god_directory_findings files =
     List.map_filter god_directory_finding (tally (map (\<lambda>f. dirname (path f)) files))"

text \<open>
  Modelled from the spec: the import graph of the analysed files, and the finding of a
  cycle, whose paths are the cycle in its order.
\<close>

definition import_graph :: "collaborators \<Rightarrow> source_file list \<Rightarrow> string graph" where
  "import_graph co files = map (\<lambda>f. (path f, resolve_imports co files f)) files"

definition cycle_finding :: "string list \<Rightarrow> StructuralFinding" where
  "cycle_finding c =
     \<lparr>finding_type = CircularDependency, finding_domain = ''code-organization'',
      severity = Warning, paths = c,
      finding_description = ''Circular dependency between files'', metadata = []\<rparr>"

record analysis =
  findings :: "StructuralFinding list"
  stats :: CodeOrganizationStats

text \<open>
  Modelled from the spec: the code-organization analyzer of section 4.7, with the two
  kinds of findings that the claims are about (god directories and import cycles) and the
  statistics of section 3. The rules for naming conventions, nesting depth, barrel files,
  catch-all directories and export style are not part of the model.
\<close>

definition analyze_files ::
  "config \<Rightarrow> collaborators \<Rightarrow> source_file list \<Rightarrow> analysis" where
  "analyze_files cfg co files =
     (let kept = analysed_files cfg co files;
          cycles = detect_cycles (import_graph co kept)
      in \<lparr>findings = god_directory_findings kept @ map cycle_finding cycles,
          stats = \<lparr>totalSourceFiles = length files,
                   maxDirectoryDepth = fold max (map depth files) 0,
                   circularDependencyCount = length cycles,
                   namingConventions =
                     tally (map (\<lambda>f. classify_name co (basename_no_ext (path f))) kept)\<rparr>\<rparr>)"

definition analyzeCodeOrganization ::
  "config \<Rightarrow> collaborators \<Rightarrow> fs_entry list option \<Rightarrow> analysis" where
  "analyzeCodeOrganization cfg co tree = analyze_files cfg co (walk_root cfg tree)"

subsection \<open>Scan orchestrator\<close>

text \<open>
  Modelled from the spec: the scan orchestrator of sections 2, 6 and 7. It composes the
  resolver, the walker, the engine and the analyzer, none of which fails on a missing root.
  The design-system findings are computed for more than one workspace only; the
  code-organization findings and statistics always. \<^verbatim>\<open>structuralFindings\<close> is absent when
  there is no finding of either kind, as the tests have it.
\<close>

definition scanCodebase ::
  "config \<Rightarrow> collaborators \<Rightarrow> PatternDefinition list \<Rightarrow> fs_entry list option \<Rightarrow> ScanResult" where
  "scanCodebase cfg co catalog tree =
     (let found_workspaces = resolve_workspaces cfg co tree;
          files = walk_root cfg tree;
          org = analyzeCodeOrganization cfg co tree;
          design = (if length found_workspaces > 1
                    then design_system_findings co found_workspaces files else []);
          structural = design @ findings org
      in \<lparr>detections = match_files co catalog files,
          structuralFindings = (if structural = [] then None else Some structural),
          codeOrganizationStats = stats org,
          workspaces = found_workspaces\<rparr>)"

subsection \<open>What the claims speak of\<close>

text \<open>
  The immediate count of a directory: the analysed files whose directory it is. The
  god-directory findings for a directory, the findings of import cycles of an analysis, and
  the structural findings of a scan result, none when the field is absent.
\<close>

definition immediate_count ::
  "config \<Rightarrow> collaborators \<Rightarrow> fs_entry list option \<Rightarrow> string \<Rightarrow> nat" where
  "immediate_count cfg co tree D =
     length (filter (\<lambda>f. dirname (path f) = D) (analysed_files cfg co (walk_root cfg tree)))"

definition god_findings_for ::
  "config \<Rightarrow> collaborators \<Rightarrow> fs_entry list option \<Rightarrow> string \<Rightarrow> StructuralFinding list" where
  "god_findings_for cfg co tree D =
     filter (\<lambda>f. finding_type f = GodDirectory \<and> paths f = [D])
       (findings (analyzeCodeOrganization cfg co tree))"

definition circular_findings :: "analysis \<Rightarrow> StructuralFinding list" where
  "circular_findings a = filter (\<lambda>f. finding_type f = CircularDependency) (findings a)"

definition findings_of :: "ScanResult \<Rightarrow> StructuralFinding list" where
  "findings_of r = (case structuralFindings r of None \<Rightarrow> [] | Some fs \<Rightarrow> fs)"

text \<open>Inputs for the examples: the defaults of the documentation and the trees of the tests.\<close>

definition default_config :: config where
  "default_config =
     \<lparr>ignoreDirs = [''node_modules'', ''.git'', ''dist'', ''build''],
      sourceExtensions = [''.ts'', ''.tsx'', ''.js'', ''.jsx''],
      skipDirs = [''tests'', ''__tests__'', ''__mocks__'', ''fixtures'', ''generated'', ''.storybook''],
      manifestNames = [''package.json'', ''pyproject.toml'']\<rparr>"

definition example_collaborators :: collaborators where
  "example_collaborators =
     \<lparr>glob_match = (\<lambda>g p. suffix (drop 4 g) p),
      read_manifest = (\<lambda>dir name entries.
         Some \<lparr>ws_root = dir, language = ''typescript'', packageManager = ''npm'',
               dependencies = []\<rparr>),
      resolve_imports = (\<lambda>files f.
         if path f = ''src/a.ts'' then [''src/b.ts'']
         else if path f = ''src/b.ts'' then [''src/a.ts''] else []),
      classify_name = (\<lambda>name. ''other''),
      is_generated = (\<lambda>f. False),
      design_system_findings = (\<lambda>ws files. [])\<rparr>"

definition numbered_files :: "string \<Rightarrow> string \<Rightarrow> nat \<Rightarrow> fs_entry list" where
  "numbered_files stem ext n = map (\<lambda>i. File (stem @ show_nat i @ ext) []) [0..<n]"

definition god_tree :: "fs_entry list option" where
  "god_tree =
     Some [File ''package.json'' ''{}'',
           Dir ''src''
             [Dir ''components'' (numbered_files ''Component'' ''.tsx'' 20),
              Dir ''all'' (numbered_files ''file'' ''.ts'' 35),
              Dir ''few'' (numbered_files ''Component'' ''.tsx'' 10)]]"

definition cycle_tree :: "fs_entry list option" where
  \<open>cycle_tree =
     Some [Dir ''src''
             [File ''a.ts'' ''import { b } from "./b";'',
              File ''b.ts'' ''import { a } from "./a";'']]\<close>

section \<open>Properties of the pattern catalog\<close>

subsection \<open>The columns of the catalog\<close>

lemma catalog_ids: "map id_str (getPatternCatalog ()) = [
    ''ux-manual-loading-states'', ''a11y-manual-click-handler-div'',
    ''a11y-manual-focus-management'', ''forms-manual-state-tracking'',
    ''forms-manual-submit-handler'', ''validation-manual-form-errors'',
    ''notifications-manual-alert'', ''design-hardcoded-colors'', ''design-inline-styles'',
    ''design-no-cn-utility'', ''seo-manual-meta-tags'', ''seo-manual-sitemap'',
    ''i18n-manual-pluralization'', ''i18n-manual-locale-detection'',
    ''content-manual-markdown-parsing'', ''content-manual-mdx-processing'',
    ''ab-test-manual-random-split'', ''analytics-manual-tracking'',
    ''agent-manual-tool-dispatch'', ''agent-manual-context-window'',
    ''state-manual-usestate-chain'', ''state-manual-context-provider'',
    ''state-manual-redux-boilerplate'', ''data-fetch-useeffect'',
    ''data-fetch-manual-cache'', ''data-fetch-manual-retry'',
    ''error-manual-error-boundary'', ''error-manual-result-type'',
    ''realtime-manual-websocket'', ''upload-manual-filereader'',
    ''upload-manual-drag-drop'', ''db-manual-raw-sql'', ''db-manual-migration-script'',
    ''ratelimit-manual-counter'', ''feature-flags-manual-env'',
    ''auth-manual-jwt-handling'', ''security-manual-headers'',
    ''observability-manual-logging'', ''error-monitoring-manual-tracking'',
    ''metrics-manual-timing'', ''metrics-manual-structured-log'',
    ''test-manual-assertions'', ''test-manual-mocks'', ''perf-unoptimized-images'',
    ''ai-manual-prompt-template'', ''ai-manual-inference-http'',
    ''payments-manual-integration'', ''ecommerce-manual-tax-calculation'']"
  by (simp add: getPatternCatalog_def)

lemma catalog_domains: "map domain (getPatternCatalog ()) = [
    ''empty-loading-error-states'', ''a11y-accessibility'', ''a11y-accessibility'',
    ''forms-ux'', ''forms-ux'', ''validation-feedback'', ''notifications-inapp'',
    ''design-system'', ''design-system'', ''design-system'', ''seo'', ''seo'', ''i18n'',
    ''i18n'', ''content-marketing'', ''content-marketing'', ''ab-testing-experimentation'',
    ''analytics-tracking'', ''agent-architecture'', ''agent-architecture'',
    ''state-management'', ''state-management'', ''state-management'',
    ''data-fetching-caching'', ''data-fetching-caching'', ''data-fetching-caching'',
    ''error-handling-resilience'', ''error-handling-resilience'',
    ''realtime-collaboration'', ''file-upload-media'', ''file-upload-media'',
    ''database-orm-migrations'', ''database-orm-migrations'', ''caching-rate-limit'',
    ''feature-flags-config'', ''auth-security'', ''security-hardening'', ''observability'',
    ''error-monitoring'', ''logging-tracing-metrics'', ''logging-tracing-metrics'',
    ''testing-strategy'', ''testing-strategy'', ''performance-web-vitals'',
    ''ai-model-serving'', ''ai-model-serving'', ''payments-billing'',
    ''cross-border-ecommerce'']"
  by (simp add: getPatternCatalog_def)

lemma catalog_confidence: "map confidenceBase (getPatternCatalog ()) = [
    0.55, 0.6, 0.55, 0.65, 0.6, 0.7, 0.75, 0.6, 0.55, 0.6, 0.75, 0.8, 0.7, 0.65, 0.65, 0.6,
    0.7, 0.7, 0.7, 0.6, 0.6, 0.55, 0.75, 0.7, 0.6, 0.7, 0.8, 0.65, 0.65, 0.6, 0.65, 0.7,
    0.65, 0.65, 0.6, 0.75, 0.7, 0.55, 0.7, 0.55, 0.7, 0.7, 0.5, 0.5, 0.65, 0.7, 0.75, 0.65]"
  by (simp add: getPatternCatalog_def)


lemma catalog_spans_checked:
  "list_all (\<lambda>re. list_all (span_by_design (flags re)) (wildcard_spans (source re))) all_regexps"
  by (simp add: all_regexps_def getPatternCatalog_def span_by_design_def)

lemma entries_with_domain_filter: "entries_with_domain d ps = filter (\<lambda>p. domain p = d) ps"
  by (induction ps) simp_all

subsection \<open>Match windows\<close>

text \<open>
  Claim C1, as stated: every regular expression of every catalog entry bounds each of its
  "any characters" spans by an explicit upper bound. The catalog refutes it at its first
  expression, \<^verbatim>\<open>/isLoading\s*\?\s*.*(?:Loading|Spinner|\.\.\.)/i\<close> of the entry
  \<^verbatim>\<open>ux-manual-loading-states\<close>, whose span \<^verbatim>\<open>.*\<close> has no upper bound.
\<close>

theorem catalog_unbounded_window:
  "id_str (getPatternCatalog () ! 0) = ''ux-manual-loading-states'' \<and>
   source (codePatterns (getPatternCatalog () ! 0) ! 0) =
     Seq [Lit ''isLoading'', ws, Lit ''?'', ws, Rep Dot Star,
          Alt [Lit ''Loading'', Lit ''Spinner'', Lit ''...'']] \<and>
   wildcard_spans (source (codePatterns (getPatternCatalog () ! 0) ! 0)) = [(Dot, Star)] \<and>
   upper_bound Star = None \<and>
   \<not> bounded_windows (source (codePatterns (getPatternCatalog () ! 0) ! 0))"
  by (simp add: getPatternCatalog_def bounded_windows_def)

text \<open>
  Of the 136 expressions of the catalog, 30 have a span without upper bound; in seven of
  them the span is \<^verbatim>\<open>[\s\S]*\<close>, which crosses line ends.
\<close>

lemma catalog_unbounded_counts:
  "length all_regexps = 136 \<and>
   length (filter (\<lambda>re. \<not> bounded_windows (source re)) all_regexps) = 30 \<and>
   length (filter (\<lambda>re. (anyCh, Star) \<in> set (wildcard_spans (source re))) all_regexps) = 7"
  by (simp add: all_regexps_def getPatternCatalog_def bounded_windows_def)

text \<open>
  Claim C1, amended: in every regular expression of every catalog entry, an "any
  characters" span that carries a counted quantifier is \<^verbatim>\<open>[\s\S]{0,m}\<close> with
  \<open>m \<le> 200\<close>, and a span of the dot is \<^verbatim>\<open>.*\<close> in an expression without the
  \<^verbatim>\<open>s\<close> flag, so that it ends at the line end at the latest.
\<close>

theorem catalog_windows_by_design:
  "\<forall>p \<in> set (getPatternCatalog ()). \<forall>re \<in> set (codePatterns p).
     \<forall>(a, q) \<in> set (wildcard_spans (source re)).
       (\<forall>m. upper_bound q = Some m \<longrightarrow> a = anyCh \<and> q = Count 0 m \<and> m \<le> 200) \<and>
       (a = Dot \<longrightarrow> q = Star \<and> CHR ''s'' \<notin> set (flags re))"
proof (intro ballI)
  fix p re aq
  assume p: "p \<in> set (getPatternCatalog ())" and re: "re \<in> set (codePatterns p)"
    and aq: "aq \<in> set (wildcard_spans (source re))"
  from p re have "re \<in> set all_regexps"
    by (auto simp: all_regexps_def)
  with catalog_spans_checked aq have "span_by_design (flags re) aq"
    by (auto simp: list_all_iff)
  then show "case aq of (a, q) \<Rightarrow>
     (\<forall>m. upper_bound q = Some m \<longrightarrow> a = anyCh \<and> q = Count 0 m \<and> m \<le> 200) \<and>
     (a = Dot \<longrightarrow> q = Star \<and> CHR ''s'' \<notin> set (flags re))"
    by (auto simp: span_by_design_def split: option.splits)
qed

text \<open>
  The amended claim at the first expression of \<^verbatim>\<open>a11y-manual-focus-management\<close>,
  \<^verbatim>\<open>/\.focus\s*\(\s*\)[\s\S]{0,200}(?:tabIndex|keyCode|keyDown)/i\<close>, and at the dot span of
  the first expression of the catalog.
\<close>

theorem catalog_windows_by_design_witness:
  "getPatternCatalog () ! 2 \<in> set (getPatternCatalog ()) \<and>
   codePatterns (getPatternCatalog () ! 2) ! 0 \<in> set (codePatterns (getPatternCatalog () ! 2)) \<and>
   (anyCh, Count 0 200) \<in> set (wildcard_spans (source (codePatterns (getPatternCatalog () ! 2) ! 0))) \<and>
   upper_bound (Count 0 200) = Some 200 \<and> (200::nat) \<le> 200 \<and>
   getPatternCatalog () ! 0 \<in> set (getPatternCatalog ()) \<and>
   codePatterns (getPatternCatalog () ! 0) ! 0 \<in> set (codePatterns (getPatternCatalog () ! 0)) \<and>
   (Dot, Star) \<in> set (wildcard_spans (source (codePatterns (getPatternCatalog () ! 0) ! 0))) \<and>
   CHR ''s'' \<notin> set (flags (codePatterns (getPatternCatalog () ! 0) ! 0))"
  using catalog_windows_by_design
  by (simp add: getPatternCatalog_def)

subsection \<open>Deep relative imports\<close>

lemma catalog_silent_on_deep_import:
  "list_all (\<lambda>re. regex_search re deep_import = None) all_regexps"
  by code_simp

lemma catalog_silent_on_shallow_import:
  "list_all (\<lambda>re. regex_search re shallow_import = None) all_regexps"
  by code_simp

text \<open>
  Claim C2 asks for a catalog entry that detects imports from three or more directory levels
  up and lets \<^verbatim>\<open>../theme\<close> pass. The tests name it: the entry
  \<^verbatim>\<open>org-deep-relative-import\<close> of the domain \<^verbatim>\<open>code-organization\<close>, one of three entries
  of that domain. The catalog of \<^verbatim>\<open>pattern-catalog.ts\<close> has no entry of that domain and
  no entry of that name, and none of its regular expressions matches the line
  \<^verbatim>\<open>import { config } from '../../../config/app'\<close>. The line
  \<^verbatim>\<open>import { theme } from '../theme'\<close> is matched by none either, so that the two
  lines are not told apart.
\<close>

theorem catalog_without_deep_relative_import:
  "getPatternsForDomain ''code-organization'' = [] \<and>
   ''org-deep-relative-import'' \<notin> set (map id_str (getPatternCatalog ())) \<and>
   list_all (\<lambda>p. list_all (\<lambda>re. regex_search re deep_import = None) (codePatterns p))
     (getPatternCatalog ()) \<and>
   list_all (\<lambda>p. list_all (\<lambda>re. regex_search re shallow_import = None) (codePatterns p))
     (getPatternCatalog ())"
proof -
  have "domain p \<noteq> ''code-organization''" if "p \<in> set (getPatternCatalog ())" for p
  proof -
    from that have "domain p \<in> set (map domain (getPatternCatalog ()))"
      by simp
    then show ?thesis
      unfolding catalog_domains by auto
  qed
  then have "filter (\<lambda>p. domain p = ''code-organization'') (getPatternCatalog ()) = []"
    by (simp add: filter_empty_conv)
  moreover have "''org-deep-relative-import'' \<notin> set (map id_str (getPatternCatalog ()))"
    unfolding catalog_ids by simp
  moreover have "list_all (\<lambda>p. list_all (\<lambda>re. regex_search re deep_import = None) (codePatterns p))
     (getPatternCatalog ())"
    using catalog_silent_on_deep_import
    by (auto simp add: all_regexps_def list_all_iff)
  moreover have "list_all (\<lambda>p. list_all (\<lambda>re. regex_search re shallow_import = None) (codePatterns p))
     (getPatternCatalog ())"
    using catalog_silent_on_shallow_import
    by (auto simp add: all_regexps_def list_all_iff)
  ultimately show ?thesis
    by (simp add: getPatternsForDomain_def)
qed

subsection \<open>Identifiers and confidence\<close>

text \<open>
  Claim C3: in the list returned by \<^verbatim>\<open>getPatternCatalog\<close>, the identifiers are pairwise
  distinct, and the base confidence of every entry lies between 0 and 1.
\<close>

theorem catalog_ids_distinct_confidence_in_range:
  "distinct (map id_str (getPatternCatalog ())) \<and>
   (\<forall>p \<in> set (getPatternCatalog ()). 0 \<le> confidenceBase p \<and> confidenceBase p \<le> 1)"
proof
  show "distinct (map id_str (getPatternCatalog ()))"
    unfolding catalog_ids by simp
  have "\<forall>c \<in> set (map confidenceBase (getPatternCatalog ())). 0 \<le> c \<and> c \<le> 1"
    unfolding catalog_confidence by simp
  then show "\<forall>p \<in> set (getPatternCatalog ()). 0 \<le> confidenceBase p \<and> confidenceBase p \<le> 1"
    by simp
qed

text \<open>Claim C3 at the last entry of the catalog, \<^verbatim>\<open>ecommerce-manual-tax-calculation\<close>.\<close>

theorem catalog_ids_distinct_confidence_in_range_witness:
  "getPatternCatalog () ! 47 \<in> set (getPatternCatalog ()) \<and>
   id_str (getPatternCatalog () ! 47) = ''ecommerce-manual-tax-calculation'' \<and>
   confidenceBase (getPatternCatalog () ! 47) = 0.65 \<and>
   0 \<le> confidenceBase (getPatternCatalog () ! 47) \<and> confidenceBase (getPatternCatalog () ! 47) \<le> 1"
  using catalog_ids_distinct_confidence_in_range
  by (simp add: getPatternCatalog_def)

subsection \<open>Filtering by domain\<close>

text \<open>
  Claim C4: \<^verbatim>\<open>getPatternCatalog\<close> is pure and order-stable, any two calls returning lists
  of equal length with equal entries in the same order; and for every domain \<open>d\<close>,
  \<^verbatim>\<open>getPatternsForDomain(d)\<close> is the subsequence of the catalog whose entries have the
  domain \<open>d\<close>, which is empty for a domain without entries.
\<close>

theorem getPatternsForDomain_is_subsequence:
  "list_all2 (=) (getPatternCatalog u) (getPatternCatalog v) \<and>
   getPatternsForDomain d = entries_with_domain d (getPatternCatalog ()) \<and>
   subseq (getPatternsForDomain d) (getPatternCatalog ()) \<and>
   (d \<notin> set (map domain (getPatternCatalog ())) \<longrightarrow> getPatternsForDomain d = [])"
proof (intro conjI impI)
  show "list_all2 (=) (getPatternCatalog u) (getPatternCatalog v)"
    by (simp add: list.rel_eq)
  show "getPatternsForDomain d = entries_with_domain d (getPatternCatalog ())"
    by (simp add: getPatternsForDomain_def entries_with_domain_filter)
  show "subseq (getPatternsForDomain d) (getPatternCatalog ())"
    by (simp add: getPatternsForDomain_def)
  assume "d \<notin> set (map domain (getPatternCatalog ()))"
  then show "getPatternsForDomain d = []"
    by (auto simp: getPatternsForDomain_def filter_empty_conv)
qed

text \<open>
  Claim C4 at the domain of the tests that has no entry, and at \<^verbatim>\<open>i18n\<close>, whose two
  entries come out in catalog order.
\<close>

theorem getPatternsForDomain_is_subsequence_witness:
  "''nonexistent-domain'' \<notin> set (map domain (getPatternCatalog ())) \<and>
   getPatternsForDomain ''nonexistent-domain'' = [] \<and>
   map id_str (getPatternsForDomain ''i18n'') =
     [''i18n-manual-pluralization'', ''i18n-manual-locale-detection'']"
proof -
  have none: "''nonexistent-domain'' \<notin> set (map domain (getPatternCatalog ()))"
    unfolding catalog_domains by simp
  have empty: "getPatternsForDomain ''nonexistent-domain'' = []"
    using getPatternsForDomain_is_subsequence [of "()" "()" "''nonexistent-domain''"] none
    by blast
  have "getPatternsForDomain ''i18n'' = entries_with_domain ''i18n'' (getPatternCatalog ())"
    using getPatternsForDomain_is_subsequence [of "()" "()" "''i18n''"] by blast
  moreover have "map id_str (entries_with_domain ''i18n'' (getPatternCatalog ())) =
     [''i18n-manual-pluralization'', ''i18n-manual-locale-detection'']"
    by (simp add: getPatternCatalog_def)
  ultimately have "map id_str (getPatternsForDomain ''i18n'') =
     [''i18n-manual-pluralization'', ''i18n-manual-locale-detection'']"
    by simp
  with none empty show ?thesis
    by blast
qed

section \<open>Properties of the verification client\<close>

subsection \<open>One retried call\<close>

lemma retryWithBackoff_unfold:
  "retryWithBackoff fn w =
     (case fn w of
        (Inr v, w1) \<Rightarrow> (Inr v, w1)
      | (Inl e1, w1) \<Rightarrow>
          (case fn (sleep 1000 w1) of
             (Inr v, w2) \<Rightarrow> (Inr v, w2)
           | (Inl e2, w2) \<Rightarrow>
               (case fn (sleep 2000 w2) of
                  (Inr v, w3) \<Rightarrow> (Inr v, w3)
                | (Inl e3, w3) \<Rightarrow> (Inl (Some e3), w3))))"
  unfolding retryWithBackoff_def
  apply (subst retryWithBackoff_loop.simps)
  apply (subst retryWithBackoff_loop.simps)
  apply (subst retryWithBackoff_loop.simps)
  apply (subst retryWithBackoff_loop.simps)
  apply (simp add: MAX_RETRIES_def BASE_DELAY_MS_def split: prod.splits sum.splits)
  done

lemma retry_external_trace:
  "\<exists>r \<in> set (retry_schedule c). trace (snd (retryWithBackoff (external_call c f) w)) = trace w @ r"
  by (simp add: retryWithBackoff_unfold external_call_def retry_schedule_def sleep_def
      split: prod.splits sum.splits)

lemma retry_external_answer:
  "case_sum (\<lambda>_. None) Some (fst (retryWithBackoff (external_call c f) w)) =
     fst (first_answer f MAX_RETRIES (client_state w)) \<and>
   client_state (snd (retryWithBackoff (external_call c f) w)) =
     snd (first_answer f MAX_RETRIES (client_state w))"
  by (simp add: retryWithBackoff_unfold external_call_def sleep_def numeral_3_eq_3 MAX_RETRIES_def
      split: prod.splits sum.splits)

lemma show_nat_3: "show_nat MAX_RETRIES = ''3''"
  by (simp add: MAX_RETRIES_def show_nat.simps digit_char_def)

lemma verifyRecommendation_answers:
  "fst (verifyRecommendation client name uc w) = answers client name uc (client_state w)"
proof -
  obtain r1 w1 where r1: "retryWithBackoff (call_resolve client name uc) w = (r1, w1)"
    by (cases "retryWithBackoff (call_resolve client name uc) w")
  obtain a1 s1 where a1:
    "first_answer (resolveLibraryId client name uc) MAX_RETRIES (client_state w) = (a1, s1)"
    by (cases "first_answer (resolveLibraryId client name uc) MAX_RETRIES (client_state w)")
  from retry_external_answer [of "ResolveCall name uc" "resolveLibraryId client name uc" w]
  have rel1: "case_sum (\<lambda>_. None) Some r1 = a1" "client_state w1 = s1"
    using r1 a1 by (simp_all add: call_resolve_def)
  show ?thesis
  proof (cases r1)
    case (Inl e)
    with rel1 r1 a1 show ?thesis
      by (simp add: verifyRecommendation_def answers_def show_nat_3)
  next
    case (Inr v)
    show ?thesis
    proof (cases v)
      case None
      with Inr rel1 r1 a1 show ?thesis
        by (auto simp add: verifyRecommendation_def answers_def)
    next
      case (Some lid)
      obtain r2 w2 where r2: "retryWithBackoff (call_docs client lid uc) w1 = (r2, w2)"
        by (cases "retryWithBackoff (call_docs client lid uc) w1")
      from retry_external_answer [of "DocsCall lid uc" "getLibraryDocs client lid uc" w1]
      have rel2: "case_sum (\<lambda>_. None) Some r2 =
          fst (first_answer (getLibraryDocs client lid uc) MAX_RETRIES s1)"
        using r2 rel1 by (simp add: call_docs_def)
      from Some Inr rel1 r1 a1 r2 rel2 show ?thesis
        by (auto simp add: verifyRecommendation_def answers_def show_nat_3
            split: sum.splits option.splits)
    qed
  qed
qed

lemma verifyRecommendation_trace:
  "\<exists>r d. trace (snd (verifyRecommendation client name uc w)) = trace w @ r @ d \<and>
     r \<in> set (retry_schedule (ResolveCall name uc)) \<and>
     (d = [] \<or> (\<exists>lid. d \<in> set (retry_schedule (DocsCall lid uc))))"
proof -
  obtain r1 w1 where r1: "retryWithBackoff (call_resolve client name uc) w = (r1, w1)"
    by (cases "retryWithBackoff (call_resolve client name uc) w")
  from retry_external_trace [of "ResolveCall name uc" "resolveLibraryId client name uc" w]
  obtain r where r: "r \<in> set (retry_schedule (ResolveCall name uc))" "trace w1 = trace w @ r"
    using r1 by (auto simp add: call_resolve_def)
  show ?thesis
  proof (cases "\<exists>lid. r1 = Inr (Some lid)")
    case False
    then have "snd (verifyRecommendation client name uc w) = w1"
      using r1 by (auto simp add: verifyRecommendation_def split: sum.splits option.splits)
    with r show ?thesis by auto
  next
    case True
    then obtain lid where lid: "r1 = Inr (Some lid)" by blast
    obtain r2 w2 where r2: "retryWithBackoff (call_docs client lid uc) w1 = (r2, w2)"
      by (cases "retryWithBackoff (call_docs client lid uc) w1")
    from retry_external_trace [of "DocsCall lid uc" "getLibraryDocs client lid uc" w1]
    obtain d where d: "d \<in> set (retry_schedule (DocsCall lid uc))" "trace w2 = trace w1 @ d"
      using r2 by (auto simp add: call_docs_def)
    have "snd (verifyRecommendation client name uc w) = w2"
      using r1 r2 lid by (auto simp add: verifyRecommendation_def split: sum.splits option.splits)
    with r d show ?thesis by auto
  qed
qed



subsection \<open>Verifying one recommendation\<close>

text \<open>
  Claim C9: \<^verbatim>\<open>verifyRecommendation\<close> makes at most three attempts per external call, with
  pauses of 1000 ms and then 2000 ms between attempts: the effects it adds are one retry
  schedule of \<^verbatim>\<open>resolveLibraryId\<close>, followed by nothing or by one retry schedule of
  \<^verbatim>\<open>getLibraryDocs\<close>. If \<^verbatim>\<open>resolveLibraryId\<close> throws at every attempt the status is
  \<^verbatim>\<open>unavailable\<close>; if it returns \<^verbatim>\<open>null\<close> the status is \<^verbatim>\<open>unverified\<close> and
  \<^verbatim>\<open>getLibraryDocs\<close> is not called; if \<^verbatim>\<open>getLibraryDocs\<close> returns documentation the
  status is \<^verbatim>\<open>verified\<close>, with the URL and the version of the documentation.
\<close>

theorem verifyRecommendation_retry_policy:
  "(\<exists>r d. trace (snd (verifyRecommendation client name uc w)) = trace w @ r @ d \<and>
      r \<in> set (retry_schedule (ResolveCall name uc)) \<and>
      (d = [] \<or> (\<exists>lid. d \<in> set (retry_schedule (DocsCall lid uc))))) \<and>
   (fst (first_answer (resolveLibraryId client name uc) MAX_RETRIES (client_state w)) = None \<longrightarrow>
      status (fst (verifyRecommendation client name uc w)) = Unavailable) \<and>
   (fst (first_answer (resolveLibraryId client name uc) MAX_RETRIES (client_state w)) = Some None \<longrightarrow>
      status (fst (verifyRecommendation client name uc w)) = Unverified \<and>
      trace (snd (verifyRecommendation client name uc w)) \<in>
        (\<lambda>r. trace w @ r) ` set (retry_schedule (ResolveCall name uc))) \<and>
   (\<forall>lid s1 docs.
      first_answer (resolveLibraryId client name uc) MAX_RETRIES (client_state w) = (Some (Some lid), s1) \<and>
      fst (first_answer (getLibraryDocs client lid uc) MAX_RETRIES s1) = Some (Some docs) \<longrightarrow>
      fst (verifyRecommendation client name uc w) =
        \<lparr>status = Verified, libraryId = Some lid, documentationUrl = Some (url docs),
         version = Some (docs_version docs), note_text = None\<rparr>)"
proof (intro conjI impI allI)
  show "\<exists>r d. trace (snd (verifyRecommendation client name uc w)) = trace w @ r @ d \<and>
      r \<in> set (retry_schedule (ResolveCall name uc)) \<and>
      (d = [] \<or> (\<exists>lid. d \<in> set (retry_schedule (DocsCall lid uc))))"
    by (rule verifyRecommendation_trace)
next
  assume "fst (first_answer (resolveLibraryId client name uc) MAX_RETRIES (client_state w)) = None"
  then show "status (fst (verifyRecommendation client name uc w)) = Unavailable"
    by (cases "first_answer (resolveLibraryId client name uc) MAX_RETRIES (client_state w)")
      (simp add: verifyRecommendation_answers answers_def)
next
  assume a: "fst (first_answer (resolveLibraryId client name uc) MAX_RETRIES (client_state w)) = Some None"
  then show "status (fst (verifyRecommendation client name uc w)) = Unverified"
    by (cases "first_answer (resolveLibraryId client name uc) MAX_RETRIES (client_state w)")
      (simp add: verifyRecommendation_answers answers_def)
  obtain r1 w1 where r1: "retryWithBackoff (call_resolve client name uc) w = (r1, w1)"
    by (cases "retryWithBackoff (call_resolve client name uc) w")
  from retry_external_answer [of "ResolveCall name uc" "resolveLibraryId client name uc" w] a r1
  have "r1 = Inr None"
    by (cases r1) (simp_all add: call_resolve_def)
  with r1 have "snd (verifyRecommendation client name uc w) = w1"
    by (simp add: verifyRecommendation_def)
  moreover from retry_external_trace [of "ResolveCall name uc" "resolveLibraryId client name uc" w] r1
  have "trace w1 \<in> (\<lambda>r. trace w @ r) ` set (retry_schedule (ResolveCall name uc))"
    by (auto simp add: call_resolve_def)
  ultimately show "trace (snd (verifyRecommendation client name uc w)) \<in>
        (\<lambda>r. trace w @ r) ` set (retry_schedule (ResolveCall name uc))"
    by simp
next
  fix lid s1 docs
  assume "first_answer (resolveLibraryId client name uc) MAX_RETRIES (client_state w) = (Some (Some lid), s1) \<and>
      fst (first_answer (getLibraryDocs client lid uc) MAX_RETRIES s1) = Some (Some docs)"
  then show "fst (verifyRecommendation client name uc w) =
        \<lparr>status = Verified, libraryId = Some lid, documentationUrl = Some (url docs),
         version = Some (docs_version docs), note_text = None\<rparr>"
    by (simp add: verifyRecommendation_answers answers_def)
qed


text \<open>
  Claim C9 at three clients: one that always throws, one that does not know the library,
  and one that rejects the first two calls and then resolves.
\<close>

theorem verifyRecommendation_retry_policy_witness:
  "status (fst (verifyRecommendation failing_client ''zod'' ''validation'' w0)) = Unavailable \<and>
   status (fst (verifyRecommendation unknown_client ''zod'' ''validation'' w0)) = Unverified \<and>
   trace (snd (verifyRecommendation unknown_client ''zod'' ''validation'' w0)) \<in>
     {[ResolveCall ''zod'' ''validation''],
      [ResolveCall ''zod'' ''validation'', Sleep 1000, ResolveCall ''zod'' ''validation''],
      [ResolveCall ''zod'' ''validation'', Sleep 1000, ResolveCall ''zod'' ''validation'',
       Sleep 2000, ResolveCall ''zod'' ''validation'']} \<and>
   fst (verifyRecommendation flaky_client ''zod'' ''validation'' w0) =
     \<lparr>status = Verified, libraryId = Some ''/colinhacks/zod'',
      documentationUrl = Some ''https://zod.dev'', version = Some ''3.23.8'', note_text = None\<rparr>"
  using verifyRecommendation_retry_policy [of failing_client "''zod''" "''validation''" w0]
    verifyRecommendation_retry_policy [of unknown_client "''zod''" "''validation''" w0]
    verifyRecommendation_retry_policy [of flaky_client "''zod''" "''validation''" w0]
  by (simp add: failing_client_def unknown_client_def flaky_client_def w0_def MAX_RETRIES_def
      numeral_3_eq_3 retry_schedule_def)


subsection \<open>Verifying all recommendations\<close>

lemma verifyAll_loop_done:
  "\<not> i < length items \<Longrightarrow> verifyAll_loop client items i results w = (results, w)"
  by (subst verifyAll_loop.simps) simp

lemma verifyAll_loop_skip:
  "i < length items \<Longrightarrow> items ! i = None \<Longrightarrow>
   verifyAll_loop client items i results w = verifyAll_loop client items (i + 1) results w"
  by (subst verifyAll_loop.simps) simp

lemma verifyAll_loop_item:
  "i < length items \<Longrightarrow> items ! i = Some item \<Longrightarrow>
   verifyRecommendation client (libraryName item) (useCase item) w = (result, w') \<Longrightarrow>
   verifyAll_loop client items i results w =
     verifyAll_loop client items (i + 1) (results(i \<mapsto> result)) w'"
  by (subst verifyAll_loop.simps) simp

lemma verifyAll_loop_split:
  "i \<le> k \<Longrightarrow> k \<le> length items \<Longrightarrow>
   verifyAll_loop client items i results w =
     (case verifyAll_loop client (take k items) i results w of
        (r', w') \<Rightarrow> verifyAll_loop client items k r' w')"
proof (induction client items i results w rule: verifyAll_loop.induct)
  case (1 client items i results w)
  show ?case
  proof (cases "i < k")
    case False
    with "1.prems" have "i = k" by simp
    then show ?thesis
      using "1.prems" by (simp add: verifyAll_loop_done)
  next
    case True
    with "1.prems" have lt: "i < length items" and lt': "i < length (take k items)"
      and nth: "take k items ! i = items ! i"
      by simp_all
    show ?thesis
    proof (cases "items ! i")
      case None
      have ih: "verifyAll_loop client items (i + 1) results w =
        (case verifyAll_loop client (take k items) (i + 1) results w of
           (r', w') \<Rightarrow> verifyAll_loop client items k r' w')"
        by (rule "1.IH"(1) [OF lt None]) (use True "1.prems" in simp_all)
      show ?thesis
        unfolding verifyAll_loop_skip [OF lt None]
          verifyAll_loop_skip [OF lt' nth [unfolded None]]
        by (rule ih)
    next
      case (Some item)
      obtain result w' where vr:
        "verifyRecommendation client (libraryName item) (useCase item) w = (result, w')"
        by (cases "verifyRecommendation client (libraryName item) (useCase item) w")
      have ih: "verifyAll_loop client items (i + 1) (results(i \<mapsto> result)) w' =
        (case verifyAll_loop client (take k items) (i + 1) (results(i \<mapsto> result)) w' of
           (r', w'') \<Rightarrow> verifyAll_loop client items k r' w'')"
        by (rule "1.IH"(2) [OF lt Some vr [symmetric]]) (use True "1.prems" in simp_all)
      show ?thesis
        unfolding verifyAll_loop_item [OF lt Some vr]
          verifyAll_loop_item [OF lt' nth [unfolded Some] vr]
        by (rule ih)
    qed
  qed
qed

lemma verifyAll_loop_dom:
  "dom (fst (verifyAll_loop client items i results w)) =
     dom results \<union> {j. i \<le> j \<and> j < length items \<and> items ! j \<noteq> None}"
proof (induction client items i results w rule: verifyAll_loop.induct)
  case (1 client items i results w)
  show ?case
  proof (cases "i < length items")
    case False
    then show ?thesis
      by (auto simp add: verifyAll_loop_done)
  next
    case lt: True
    have step: "{j. i \<le> j \<and> j < length items \<and> items ! j \<noteq> None} =
      (if items ! i = None then {} else {i}) \<union> {j. i + 1 \<le> j \<and> j < length items \<and> items ! j \<noteq> None}"
      using lt by (auto simp: Suc_le_eq le_less)
    show ?thesis
    proof (cases "items ! i")
      case None
      have "dom (fst (verifyAll_loop client items (i + 1) results w)) =
        dom results \<union> {j. i + 1 \<le> j \<and> j < length items \<and> items ! j \<noteq> None}"
        by (rule "1.IH"(1) [OF lt None])
      then show ?thesis
        unfolding verifyAll_loop_skip [OF lt None] step using None by simp
    next
      case (Some item)
      obtain result w' where vr:
        "verifyRecommendation client (libraryName item) (useCase item) w = (result, w')"
        by (cases "verifyRecommendation client (libraryName item) (useCase item) w")
      have "dom (fst (verifyAll_loop client items (i + 1) (results(i \<mapsto> result)) w')) =
        dom (results(i \<mapsto> result)) \<union> {j. i + 1 \<le> j \<and> j < length items \<and> items ! j \<noteq> None}"
        by (rule "1.IH"(2) [OF lt Some vr [symmetric]])
      then show ?thesis
        unfolding verifyAll_loop_item [OF lt Some vr] step using Some by auto
    qed
  qed
qed

lemma verifyAll_loop_keeps:
  "j < i \<Longrightarrow> fst (verifyAll_loop client items i results w) j = results j"
proof (induction client items i results w rule: verifyAll_loop.induct)
  case (1 client items i results w)
  show ?case
  proof (cases "i < length items")
    case False
    then show ?thesis
      by (simp add: verifyAll_loop_done)
  next
    case lt: True
    show ?thesis
    proof (cases "items ! i")
      case None
      have "fst (verifyAll_loop client items (i + 1) results w) j = results j"
        by (rule "1.IH"(1) [OF lt None]) (use "1.prems" in simp)
      then show ?thesis
        unfolding verifyAll_loop_skip [OF lt None] .
    next
      case (Some item)
      obtain result w' where vr:
        "verifyRecommendation client (libraryName item) (useCase item) w = (result, w')"
        by (cases "verifyRecommendation client (libraryName item) (useCase item) w")
      have "fst (verifyAll_loop client items (i + 1) (results(i \<mapsto> result)) w') j =
          (results(i \<mapsto> result)) j"
        by (rule "1.IH"(2) [OF lt Some vr [symmetric]]) (use "1.prems" in simp)
      then show ?thesis
        unfolding verifyAll_loop_item [OF lt Some vr] using "1.prems" by simp
    qed
  qed
qed

lemma verifyAll_entry:
  assumes k: "k < length items" and it: "items ! k = Some item"
  shows "fst (verifyAllRecommendations client items w) k =
     Some (fst (verifyRecommendation client (libraryName item) (useCase item)
       (snd (verifyAllRecommendations client (take k items) w))))"
proof -
  obtain r' w' where pre: "verifyAll_loop client (take k items) 0 Map.empty w = (r', w')"
    by (cases "verifyAll_loop client (take k items) 0 Map.empty w")
  obtain result w'' where vr:
    "verifyRecommendation client (libraryName item) (useCase item) w' = (result, w'')"
    by (cases "verifyRecommendation client (libraryName item) (useCase item) w'")
  have "verifyAll_loop client items 0 Map.empty w = verifyAll_loop client items k r' w'"
    using verifyAll_loop_split [of 0 k items client Map.empty w] k pre by simp
  also have "\<dots> = verifyAll_loop client items (k + 1) (r'(k \<mapsto> result)) w''"
    by (rule verifyAll_loop_item [OF k it vr])
  finally have "fst (verifyAll_loop client items 0 Map.empty w) k = (r'(k \<mapsto> result)) k"
    by (simp add: verifyAll_loop_keeps)
  with pre vr show ?thesis
    by (simp add: verifyAllRecommendations_def)
qed

lemma first_answer_stateless:
  "(\<And>s. snd (f s) = s) \<Longrightarrow> snd (first_answer f n s) = s"
proof (induction n arbitrary: s)
  case 0
  then show ?case by simp
next
  case (Suc n)
  obtain r s' where fs: "f s = (r, s')" by (cases "f s")
  with Suc.prems [of s] have "s' = s" by simp
  with fs Suc show ?case by (cases r) simp_all
qed

lemma verifyRecommendation_stateless:
  assumes "stateless client"
  shows "client_state (snd (verifyRecommendation client name uc w)) = client_state w"
proof -
  have res: "\<And>s. snd (resolveLibraryId client name uc s) = s"
    and docs: "\<And>l s. snd (getLibraryDocs client l uc s) = s"
    using assms by (simp_all add: stateless_def)
  obtain r1 w1 where r1: "retryWithBackoff (call_resolve client name uc) w = (r1, w1)"
    by (cases "retryWithBackoff (call_resolve client name uc) w")
  from retry_external_answer [of "ResolveCall name uc" "resolveLibraryId client name uc" w] r1
  have s1: "client_state w1 = client_state w"
    by (simp add: call_resolve_def first_answer_stateless [OF res])
  show ?thesis
  proof (cases "\<exists>lid. r1 = Inr (Some lid)")
    case False
    then have "snd (verifyRecommendation client name uc w) = w1"
      using r1 by (auto simp add: verifyRecommendation_def split: sum.splits option.splits)
    with s1 show ?thesis by simp
  next
    case True
    then obtain lid where lid: "r1 = Inr (Some lid)" by blast
    obtain r2 w2 where r2: "retryWithBackoff (call_docs client lid uc) w1 = (r2, w2)"
      by (cases "retryWithBackoff (call_docs client lid uc) w1")
    from retry_external_answer [of "DocsCall lid uc" "getLibraryDocs client lid uc" w1] r2
    have s2: "client_state w2 = client_state w1"
      by (simp add: call_docs_def first_answer_stateless [OF docs])
    have "snd (verifyRecommendation client name uc w) = w2"
      using r1 r2 lid by (auto simp add: verifyRecommendation_def split: sum.splits option.splits)
    with s1 s2 show ?thesis by simp
  qed
qed

lemma verifyAll_loop_stateless:
  "stateless client \<Longrightarrow>
   client_state (snd (verifyAll_loop client items i results w)) = client_state w"
proof (induction client items i results w rule: verifyAll_loop.induct)
  case (1 client items i results w)
  show ?case
  proof (cases "i < length items")
    case False
    then show ?thesis
      by (simp add: verifyAll_loop_done)
  next
    case lt: True
    show ?thesis
    proof (cases "items ! i")
      case None
      have "client_state (snd (verifyAll_loop client items (i + 1) results w)) = client_state w"
        by (rule "1.IH"(1) [OF lt None "1.prems"])
      then show ?thesis
        unfolding verifyAll_loop_skip [OF lt None] .
    next
      case (Some item)
      obtain result w' where vr:
        "verifyRecommendation client (libraryName item) (useCase item) w = (result, w')"
        by (cases "verifyRecommendation client (libraryName item) (useCase item) w")
      from verifyRecommendation_stateless [OF "1.prems", of "libraryName item" "useCase item" w] vr
      have "client_state w' = client_state w" by simp
      moreover have "client_state (snd (verifyAll_loop client items (i + 1) (results(i \<mapsto> result)) w')) =
          client_state w'"
        by (rule "1.IH"(2) [OF lt Some vr [symmetric] "1.prems"])
      ultimately show ?thesis
        unfolding verifyAll_loop_item [OF lt Some vr] by simp
    qed
  qed
qed


text \<open>
  Claim C10: for every client and every list of items, the keys of the map returned by
  \<^verbatim>\<open>verifyAllRecommendations\<close> are exactly the indices of the items that are not
  \<^verbatim>\<open>null\<close>, and the entry of an index is the result of \<^verbatim>\<open>verifyRecommendation\<close>
  on that item alone, run when the loop reaches it. No outcome of an item, failed or
  not, enters the call for another item; for a client that keeps no state the entry is
  the result of verifying the item from the initial world.
\<close>

theorem verifyAllRecommendations_entries:
  "dom (fst (verifyAllRecommendations client items w)) = {i. i < length items \<and> items ! i \<noteq> None} \<and>
   (\<forall>i item. i < length items \<and> items ! i = Some item \<longrightarrow>
      fst (verifyAllRecommendations client items w) i =
        Some (fst (verifyRecommendation client (libraryName item) (useCase item)
          (snd (verifyAllRecommendations client (take i items) w))))) \<and>
   (stateless client \<longrightarrow>
      (\<forall>i item. i < length items \<and> items ! i = Some item \<longrightarrow>
         fst (verifyAllRecommendations client items w) i =
           Some (fst (verifyRecommendation client (libraryName item) (useCase item) w))))"
proof (intro conjI allI impI)
  show "dom (fst (verifyAllRecommendations client items w)) = {i. i < length items \<and> items ! i \<noteq> None}"
    by (simp add: verifyAllRecommendations_def verifyAll_loop_dom)
next
  fix i item
  assume "i < length items \<and> items ! i = Some item"
  then show "fst (verifyAllRecommendations client items w) i =
        Some (fst (verifyRecommendation client (libraryName item) (useCase item)
          (snd (verifyAllRecommendations client (take i items) w))))"
    by (simp add: verifyAll_entry)
next
  fix i item
  assume st: "stateless client" and "i < length items \<and> items ! i = Some item"
  then have "fst (verifyAllRecommendations client items w) i =
        Some (fst (verifyRecommendation client (libraryName item) (useCase item)
          (snd (verifyAllRecommendations client (take i items) w))))"
    by (simp add: verifyAll_entry)
  moreover have "client_state (snd (verifyAllRecommendations client (take i items) w)) = client_state w"
    using st by (simp add: verifyAllRecommendations_def verifyAll_loop_stateless)
  ultimately show "fst (verifyAllRecommendations client items w) i =
           Some (fst (verifyRecommendation client (libraryName item) (useCase item) w))"
    by (simp add: verifyRecommendation_answers)
qed


text \<open>
  Claim C10 at a list of three items with a client that keeps no state: the first library
  is unavailable, the second item is \<^verbatim>\<open>null\<close>, the third library is verified all the
  same.
\<close>

theorem verifyAllRecommendations_entries_witness:
  "stateless fixed_client \<and>
   dom (fst (verifyAllRecommendations fixed_client three_items u0)) = {0, 2} \<and>
   map_option status (fst (verifyAllRecommendations fixed_client three_items u0) 0) = Some Unavailable \<and>
   map_option status (fst (verifyAllRecommendations fixed_client three_items u0) 2) = Some Verified"
proof -
  note entries = verifyAllRecommendations_entries [of fixed_client three_items u0]
  have st: "stateless fixed_client"
    by (simp add: stateless_def fixed_client_def)
  have idx: "{i. i < length three_items \<and> three_items ! i \<noteq> None} = {0, 2}"
    by (auto simp add: three_items_def less_Suc_eq numeral_3_eq_3)
  have it0: "0 < length three_items \<and>
      three_items ! 0 = Some \<lparr>libraryName = ''left-pad'', useCase = ''padding''\<rparr>"
    and it2: "2 < length three_items \<and>
      three_items ! 2 = Some \<lparr>libraryName = ''zod'', useCase = ''validation''\<rparr>"
    by (simp_all add: three_items_def)
  have r0: "status (fst (verifyRecommendation fixed_client ''left-pad'' ''padding'' u0)) = Unavailable"
    and r2: "status (fst (verifyRecommendation fixed_client ''zod'' ''validation'' u0)) = Verified"
    by (simp_all add: verifyRecommendation_answers answers_def fixed_client_def u0_def
        MAX_RETRIES_def numeral_3_eq_3)
  from entries idx have d: "dom (fst (verifyAllRecommendations fixed_client three_items u0)) = {0, 2}"
    by simp
  from entries st have e: "fst (verifyAllRecommendations fixed_client three_items u0) i =
      Some (fst (verifyRecommendation fixed_client (libraryName item) (useCase item) u0))"
    if "i < length three_items \<and> three_items ! i = Some item" for i item
    using that by blast
  from e [OF it0] r0 e [OF it2] r2 st d show ?thesis
    by simp
qed

section \<open>Properties of the analyzer and of the scanner\<close>

subsection \<open>Counting\<close>

lemma map_of_bump:
  "map_of (bump k al) =
     (map_of al)(k \<mapsto> (case map_of al k of None \<Rightarrow> 1 | Some n \<Rightarrow> Suc n))"
  by (induction al) (auto simp: fun_eq_iff)

lemma bump_keys: "fst ` set (bump k al) = insert k (fst ` set al)"
proof -
  have "fst ` set (bump k al) = dom (map_of (bump k al))"
    by (simp add: dom_map_of_conv_image_fst)
  also have "\<dots> = insert k (dom (map_of al))"
    by (simp add: map_of_bump)
  finally show ?thesis
    by (simp add: dom_map_of_conv_image_fst)
qed

lemma bump_distinct: "distinct (map fst al) \<Longrightarrow> distinct (map fst (bump k al))"
proof (induction al)
  case Nil
  then show ?case by simp
next
  case (Cons a al)
  obtain k' n where a: "a = (k', n)" by (cases a)
  with Cons show ?case
    using bump_keys [of k al] by auto
qed

lemma foldl_bump_distinct:
  "distinct (map fst al) \<Longrightarrow> distinct (map fst (foldl (\<lambda>acc k. bump k acc) al ks))"
  by (induction ks arbitrary: al) (simp_all add: bump_distinct)

lemma map_of_foldl_bump:
  "map_of (foldl (\<lambda>acc k. bump k acc) al ks) k =
     (if count_list ks k = 0 then map_of al k
      else Some (count_list ks k + (case map_of al k of None \<Rightarrow> 0 | Some n \<Rightarrow> n)))"
proof (induction ks arbitrary: al)
  case Nil
  then show ?case by simp
next
  case (Cons x ks)
  show ?case
    by (simp add: Cons.IH map_of_bump split: option.splits)
qed

lemma tally_distinct: "distinct (map fst (tally ks))"
  by (simp add: tally_def foldl_bump_distinct)

lemma map_of_tally:
  "map_of (tally ks) k = (if count_list ks k = 0 then None else Some (count_list ks k))"
  by (simp add: tally_def map_of_foldl_bump)



subsection \<open>God directories\<close>

lemma count_list_dirname:
  "count_list (map (\<lambda>f. dirname (path f)) files) D =
     length (filter (\<lambda>f. dirname (path f) = D) files)"
  by (induction files) simp_all

lemma god_findings_of_distinct:
  "distinct (map fst al) \<Longrightarrow>
   filter (\<lambda>f. finding_type f = GodDirectory \<and> paths f = [D])
     (List.map_filter god_directory_finding al) =
   (case map_of al D of
      None \<Rightarrow> []
    | Some n \<Rightarrow> (case god_directory_finding (D, n) of None \<Rightarrow> [] | Some f \<Rightarrow> [f]))"
proof (induction al)
  case Nil
  then show ?case by simp
next
  case (Cons a al)
  obtain k n where a: "a = (k, n)" by (cases a)
  show ?case
  proof (cases "k = D")
    case True
    with Cons.prems a have "map_of al D = None"
      by (simp add: map_of_eq_None_iff)
    with Cons True a show ?thesis
      by (simp add: god_directory_finding_def split: option.splits)
  next
    case False
    with Cons a show ?thesis
      by (simp add: god_directory_finding_def split: option.splits)
  qed
qed

lemma god_directory_findings_type:
  "f \<in> set (god_directory_findings files) \<Longrightarrow> finding_type f = GodDirectory"
  by (auto simp add: god_directory_findings_def List.map_filter_def god_directory_finding_def
      split: option.splits)

lemma filter_cycle_findings_god:
  "filter (\<lambda>f. finding_type f = GodDirectory \<and> paths f = [D]) (map cycle_finding cs) = []"
  by (simp add: filter_empty_conv cycle_finding_def)

lemma filter_god_findings_circular:
  "filter (\<lambda>f. finding_type f = CircularDependency) (god_directory_findings files) = []"
  using god_directory_findings_type by (fastforce simp add: filter_empty_conv)

lemma filter_cycle_findings_circular:
  "filter (\<lambda>f. finding_type f = CircularDependency) (map cycle_finding cs) = map cycle_finding cs"
  by (simp add: filter_id_conv cycle_finding_def)

lemma god_findings_for_count:
  "god_findings_for cfg co tree D =
     (case god_directory_finding (D, immediate_count cfg co tree D) of
        None \<Rightarrow> [] | Some f \<Rightarrow> [f])"
proof -
  let ?files = "analysed_files cfg co (walk_root cfg tree)"
  let ?n = "immediate_count cfg co tree D"
  have n: "count_list (map (\<lambda>f. dirname (path f)) ?files) D = ?n"
    by (simp add: count_list_dirname immediate_count_def)
  have "god_findings_for cfg co tree D =
      filter (\<lambda>f. finding_type f = GodDirectory \<and> paths f = [D]) (god_directory_findings ?files)"
    by (simp add: god_findings_for_def analyzeCodeOrganization_def analyze_files_def Let_def
        filter_cycle_findings_god)
  also have "\<dots> =
      (case map_of (tally (map (\<lambda>f. dirname (path f)) ?files)) D of
         None \<Rightarrow> []
       | Some n \<Rightarrow> (case god_directory_finding (D, n) of None \<Rightarrow> [] | Some f \<Rightarrow> [f]))"
    unfolding god_directory_findings_def
    by (rule god_findings_of_distinct) (rule tally_distinct)
  also have "\<dots> = (case god_directory_finding (D, ?n) of None \<Rightarrow> [] | Some f \<Rightarrow> [f])"
    by (simp add: map_of_tally n god_directory_finding_def god_directory_severity_def)
  finally show ?thesis .
qed


text \<open>
  Claim C5: for every directory \<open>D\<close> with the immediate count \<open>n\<close> of recognised source
  files, the analysis has no god-directory finding for \<open>D\<close> when \<open>n \<le> 15\<close>, one finding
  of severity warning when \<open>15 < n \<le> 30\<close>, and one of severity critical when
  \<open>n > 30\<close>. The count is over the files that the skip rule leaves for analysis.
\<close>

theorem god_directory_thresholds:
  "(immediate_count cfg co tree D \<le> 15 \<longrightarrow> god_findings_for cfg co tree D = []) \<and>
   (15 < immediate_count cfg co tree D \<and> immediate_count cfg co tree D \<le> 30 \<longrightarrow>
      (\<exists>f. god_findings_for cfg co tree D = [f] \<and> severity f = Warning)) \<and>
   (30 < immediate_count cfg co tree D \<longrightarrow>
      (\<exists>f. god_findings_for cfg co tree D = [f] \<and> severity f = Critical))"
  by (simp add: god_findings_for_count god_directory_finding_def god_directory_severity_def)

lemma god_tree_counts:
  "immediate_count default_config example_collaborators god_tree ''src/components'' = 20"
  "immediate_count default_config example_collaborators god_tree ''src/all'' = 35"
  "immediate_count default_config example_collaborators god_tree ''src/few'' = 10"
  by code_simp+


text \<open>
  Claim C5 at the trees of the tests: a directory of 10 files, one of 20 and one of 35.
\<close>

theorem god_directory_thresholds_witness:
  "immediate_count default_config example_collaborators god_tree ''src/few'' \<le> 15 \<and>
   god_findings_for default_config example_collaborators god_tree ''src/few'' = [] \<and>
   15 < immediate_count default_config example_collaborators god_tree ''src/components'' \<and>
   immediate_count default_config example_collaborators god_tree ''src/components'' \<le> 30 \<and>
   map severity (god_findings_for default_config example_collaborators god_tree ''src/components'') =
     [Warning] \<and>
   30 < immediate_count default_config example_collaborators god_tree ''src/all'' \<and>
   map severity (god_findings_for default_config example_collaborators god_tree ''src/all'') =
     [Critical]"
  using god_directory_thresholds [of default_config example_collaborators god_tree "''src/few''"]
    god_directory_thresholds [of default_config example_collaborators god_tree "''src/components''"]
    god_directory_thresholds [of default_config example_collaborators god_tree "''src/all''"]
  by (auto simp add: god_tree_counts)


subsection \<open>Normalising a cycle\<close>

lemma least_node_Min: "c \<noteq> [] \<Longrightarrow> least_node c = Min (set c)"
proof -
  assume "c \<noteq> []"
  then obtain x xs where c: "c = x # xs" by (cases c) auto
  then show ?thesis
    by (simp add: least_node_def Min.set_eq_fold [symmetric])
qed

lemma least_node_rotate1: "least_node (rotate1 c) = least_node c"
proof (cases c)
  case Nil
  then show ?thesis by simp
next
  case (Cons x xs)
  then have "rotate1 c \<noteq> []" "c \<noteq> []" by simp_all
  then show ?thesis
    by (simp add: least_node_Min)
qed

lemma while_not_member:
  "m \<notin> set xs \<Longrightarrow> takeWhile (\<lambda>u. u \<noteq> m) (xs @ ys) = xs @ takeWhile (\<lambda>u. u \<noteq> m) ys"
  "m \<notin> set xs \<Longrightarrow> dropWhile (\<lambda>u. u \<noteq> m) (xs @ ys) = dropWhile (\<lambda>u. u \<noteq> m) ys"
  by (induction xs) auto

lemma while_member:
  "m \<in> set xs \<Longrightarrow> takeWhile (\<lambda>u. u \<noteq> m) (xs @ ys) = takeWhile (\<lambda>u. u \<noteq> m) xs"
  "m \<in> set xs \<Longrightarrow> dropWhile (\<lambda>u. u \<noteq> m) (xs @ ys) = dropWhile (\<lambda>u. u \<noteq> m) xs @ ys"
  by (induction xs) auto

lemma normalize_cycle_rotate1:
  assumes "distinct c"
  shows "normalize_cycle (rotate1 c) = normalize_cycle c"
proof (cases c)
  case Nil
  then show ?thesis by simp
next
  case (Cons x xs)
  define m where "m = least_node c"
  have m': "least_node (rotate1 c) = m"
    unfolding m_def by (rule least_node_rotate1)
  have ne: "c \<noteq> []" using Cons by simp
  then have "Min (set c) \<in> set c"
    by (intro Min_in) simp_all
  moreover from ne have "m = Min (set c)"
    unfolding m_def by (rule least_node_Min)
  ultimately have mem: "m \<in> set (x # xs)"
    unfolding Cons by (simp only:)
  have dist: "distinct (x # xs)"
    using assms unfolding Cons .
  have lhs: "normalize_cycle (rotate1 c) =
      dropWhile (\<lambda>u. u \<noteq> m) (xs @ [x]) @ takeWhile (\<lambda>u. u \<noteq> m) (xs @ [x])"
    unfolding normalize_cycle_def m' unfolding Cons by simp
  have rhs: "normalize_cycle c =
      dropWhile (\<lambda>u. u \<noteq> m) (x # xs) @ takeWhile (\<lambda>u. u \<noteq> m) (x # xs)"
    unfolding normalize_cycle_def m_def [symmetric] unfolding Cons by simp
  show ?thesis
  proof (cases "x = m")
    case True
    with dist have "m \<notin> set xs" by simp
    then have "takeWhile (\<lambda>u. u \<noteq> m) (xs @ [m]) = xs"
      and "dropWhile (\<lambda>u. u \<noteq> m) (xs @ [m]) = [m]"
      by (simp_all add: while_not_member)
    with True show ?thesis
      unfolding lhs rhs by simp
  next
    case False
    with mem have "m \<in> set xs" by simp
    then have "takeWhile (\<lambda>u. u \<noteq> m) (xs @ [x]) = takeWhile (\<lambda>u. u \<noteq> m) xs"
      and "dropWhile (\<lambda>u. u \<noteq> m) (xs @ [x]) = dropWhile (\<lambda>u. u \<noteq> m) xs @ [x]"
      by (simp_all add: while_member)
    with False show ?thesis
      unfolding lhs rhs by simp
  qed
qed

lemma normalize_cycle_rotate:
  "distinct c \<Longrightarrow> normalize_cycle (rotate k c) = normalize_cycle c"
proof (induction k)
  case 0
  then show ?case by simp
next
  case (Suc k)
  then have "distinct (rotate k c)" by simp
  then have "normalize_cycle (rotate1 (rotate k c)) = normalize_cycle (rotate k c)"
    by (rule normalize_cycle_rotate1)
  with Suc show ?case by simp
qed


subsection \<open>Reporting each cycle once\<close>

lemma dedupe_set: "set (dedupe seen xs) = set seen \<union> set xs"
  by (induction xs arbitrary: seen) auto

lemma dedupe_distinct: "distinct seen \<Longrightarrow> distinct (dedupe seen xs)"
  by (induction xs arbitrary: seen) auto

lemma report_cycles_distinct: "distinct (report_cycles raw)"
  by (simp add: report_cycles_def dedupe_distinct)

lemma count_list_distinct: "distinct xs \<Longrightarrow> x \<in> set xs \<Longrightarrow> count_list xs x = 1"
  by (induction xs) auto

lemma report_cycles_once:
  "c \<in> set raw \<Longrightarrow> count_list (report_cycles raw) (normalize_cycle c) = 1"
proof -
  assume "c \<in> set raw"
  then have "normalize_cycle c \<in> set (report_cycles raw)"
    by (simp add: report_cycles_def dedupe_set)
  with report_cycles_distinct [of raw] show ?thesis
    by (simp add: count_list_distinct)
qed


subsection \<open>Import cycles\<close>

lemma detect_mutual:
  assumes "a \<noteq> b"
  shows "detect_cycles [(a, [b]), (b, [a])] = (if a < b then [[a, b]] else [[b, a]])"
  using assms
  by (auto simp add: detect_cycles_def nodes_def succs_def colour_of_def cycle_through_def
      report_cycles_def normalize_cycle_def least_node_def min_def)

lemma detect_chain:
  assumes "a \<noteq> b" "b \<noteq> c" "a \<noteq> c"
  shows "detect_cycles [(a, [b]), (b, [c]), (c, [])] = []"
  using assms
  by (simp add: detect_cycles_def nodes_def succs_def colour_of_def cycle_through_def
      report_cycles_def)


lemma circular_findings_analysis:
  "circular_findings (analyzeCodeOrganization cfg co tree) =
     map cycle_finding (detect_cycles (import_graph co (analysed_files cfg co (walk_root cfg tree))))"
  by (simp add: circular_findings_def analyzeCodeOrganization_def analyze_files_def Let_def
      filter_god_findings_circular filter_cycle_findings_circular)

lemma circular_count_analysis:
  "circularDependencyCount (stats (analyzeCodeOrganization cfg co tree)) =
     length (detect_cycles (import_graph co (analysed_files cfg co (walk_root cfg tree))))"
  by (simp add: analyzeCodeOrganization_def analyze_files_def Let_def)


text \<open>
  Claim C6: two files whose imports form the cycle \<open>a \<rightarrow> b \<rightarrow> a\<close> give exactly one
  circular-dependency finding and the count 1; the chain \<open>a \<rightarrow> b \<rightarrow> c\<close> without a return
  edge gives no such finding and the count 0; and of cycles that are rotations of one
  sequence of nodes, one normalised sequence is reported, once.
\<close>

theorem circular_dependency_detection:
  "(a \<noteq> b \<and> import_graph co (analysed_files cfg co (walk_root cfg tree)) = [(a, [b]), (b, [a])] \<longrightarrow>
      length (circular_findings (analyzeCodeOrganization cfg co tree)) = 1 \<and>
      circularDependencyCount (stats (analyzeCodeOrganization cfg co tree)) = 1) \<and>
   (a \<noteq> b \<and> b \<noteq> c \<and> a \<noteq> c \<and>
    import_graph co (analysed_files cfg co (walk_root cfg tree)) = [(a, [b]), (b, [c]), (c, [])] \<longrightarrow>
      circular_findings (analyzeCodeOrganization cfg co tree) = [] \<and>
      circularDependencyCount (stats (analyzeCodeOrganization cfg co tree)) = 0) \<and>
   (\<forall>raw cyc k. distinct cyc \<and> cyc \<in> set raw \<and> rotate k cyc \<in> set raw \<longrightarrow>
      normalize_cycle (rotate k cyc) = normalize_cycle cyc \<and>
      count_list (report_cycles raw) (normalize_cycle cyc) = 1)"
  by (auto simp add: circular_findings_analysis circular_count_analysis detect_mutual detect_chain
      normalize_cycle_rotate report_cycles_once simp del: rotate_Suc)


lemma cycle_tree_graph:
  "import_graph example_collaborators
     (analysed_files default_config example_collaborators (walk_root default_config cycle_tree)) =
   [(''src/a.ts'', [''src/b.ts'']), (''src/b.ts'', [''src/a.ts''])]"
  by code_simp


text \<open>
  Claim C6 at the two files of the test, and at a cycle of three nodes found twice, the
  second time rotated.
\<close>

theorem circular_dependency_detection_witness:
  "''src/a.ts'' \<noteq> ''src/b.ts'' \<and>
   import_graph example_collaborators
     (analysed_files default_config example_collaborators (walk_root default_config cycle_tree)) =
     [(''src/a.ts'', [''src/b.ts'']), (''src/b.ts'', [''src/a.ts''])] \<and>
   length (circular_findings (analyzeCodeOrganization default_config example_collaborators cycle_tree)) = 1 \<and>
   circularDependencyCount (stats (analyzeCodeOrganization default_config example_collaborators cycle_tree)) = 1 \<and>
   distinct [''a'', ''b'', ''c''] \<and> [''a'', ''b'', ''c''] \<in> set [[''a'', ''b'', ''c''], [''b'', ''c'', ''a'']] \<and>
   rotate 1 [''a'', ''b'', ''c''] \<in> set [[''a'', ''b'', ''c''], [''b'', ''c'', ''a'']] \<and>
   count_list (report_cycles [[''a'', ''b'', ''c''], [''b'', ''c'', ''a'']])
     (normalize_cycle [''a'', ''b'', ''c'']) = 1"
proof -
  note inst = circular_dependency_detection [of "''src/a.ts''" "''src/b.ts''"
      example_collaborators default_config cycle_tree "''src/c.ts''"]
  have ne: "''src/a.ts'' \<noteq> ''src/b.ts''" by simp
  from inst ne cycle_tree_graph
  have one: "length (circular_findings
        (analyzeCodeOrganization default_config example_collaborators cycle_tree)) = 1 \<and>
      circularDependencyCount
        (stats (analyzeCodeOrganization default_config example_collaborators cycle_tree)) = 1"
    by blast
  have rot: "distinct [''a'', ''b'', ''c''] \<and>
      [''a'', ''b'', ''c''] \<in> set [[''a'', ''b'', ''c''], [''b'', ''c'', ''a'']] \<and>
      rotate 1 [''a'', ''b'', ''c''] \<in> set [[''a'', ''b'', ''c''], [''b'', ''c'', ''a'']]"
    by simp
  from inst rot
  have "count_list (report_cycles [[''a'', ''b'', ''c''], [''b'', ''c'', ''a'']])
     (normalize_cycle [''a'', ''b'', ''c'']) = 1"
    by blast
  with ne cycle_tree_graph one rot show ?thesis
    by blast
qed


subsection \<open>The scan result\<close>

text \<open>
  Claim C7: for a scan root that does not exist, \<^verbatim>\<open>scanCodebase\<close> returns the empty
  result: no detections, no workspaces, no structural findings, and statistics that are
  all zero. The function has no failing branch, whatever the configuration, the
  collaborators and the catalog.
\<close>

theorem scan_missing_root:
  "scanCodebase cfg co catalog None =
     \<lparr>detections = [], structuralFindings = None,
      codeOrganizationStats =
        \<lparr>totalSourceFiles = 0, maxDirectoryDepth = 0, circularDependencyCount = 0,
         namingConventions = []\<rparr>,
      workspaces = []\<rparr>"
  by (simp add: scanCodebase_def resolve_workspaces_def walk_root_def match_files_def
      analyzeCodeOrganization_def analyze_files_def analysed_files_def god_directory_findings_def
      import_graph_def detect_cycles_def report_cycles_def nodes_def tally_def)


text \<open>
  Claim C8: for every scanned project the result holds the statistics of the
  code-organization analysis and all of its findings; for at most one workspace, where the
  design-system analysis does not run, the structural findings of the result are those of
  the code-organization analysis and no other.
\<close>

theorem scan_includes_code_organization:
  "codeOrganizationStats (scanCodebase cfg co catalog tree) =
     stats (analyzeCodeOrganization cfg co tree) \<and>
   set (findings (analyzeCodeOrganization cfg co tree)) \<subseteq>
     set (findings_of (scanCodebase cfg co catalog tree)) \<and>
   (length (workspaces (scanCodebase cfg co catalog tree)) \<le> 1 \<longrightarrow>
      findings_of (scanCodebase cfg co catalog tree) =
        findings (analyzeCodeOrganization cfg co tree))"
  by (auto simp add: scanCodebase_def findings_of_def Let_def)


lemma god_tree_workspaces:
  "length (workspaces (scanCodebase default_config example_collaborators [] god_tree)) = 1"
  by code_simp


text \<open>
  Claim C8 at a project with one package manifest and a directory of 20 source files.
\<close>

theorem scan_includes_code_organization_witness:
  "length (workspaces (scanCodebase default_config example_collaborators [] god_tree)) \<le> 1 \<and>
   findings_of (scanCodebase default_config example_collaborators [] god_tree) =
     findings (analyzeCodeOrganization default_config example_collaborators god_tree) \<and>
   totalSourceFiles (codeOrganizationStats
     (scanCodebase default_config example_collaborators [] god_tree)) = 65"
proof -
  have "totalSourceFiles (stats (analyzeCodeOrganization default_config example_collaborators god_tree)) = 65"
    by code_simp
  with scan_includes_code_organization [of default_config example_collaborators "[]" god_tree]
    god_tree_workspaces
  show ?thesis
    by simp
qed

end
